theory Spec2Isabelle
  imports Complex_Main "HOL-Library.Word"
begin

section \<open>Data model\<close>

text \<open>
  The adapter of \<^verbatim>\<open>src/roboptim-core-ipopt-plugin.cc\<close> answers the callbacks of the
  interior-point engine for one optimisation problem.

  \<^item> The engine's \<^verbatim>\<open>Index\<close> is a C \<^verbatim>\<open>int\<close>, as are the counters \<^verbatim>\<open>int idx\<close> and \<^verbatim>\<open>int i\<close> of the
    callbacks: a 32-bit word, read as a signed number with \<open>sint\<close>. C++ leaves a signed
    overflow undefined; the model wraps, and the theorems say where a count has to be
    representable.
  \<^item> The engine's \<^verbatim>\<open>Number\<close> is a C \<^verbatim>\<open>double\<close>. Its arithmetic is not modelled: the numbers
    are a type parameter \<open>'a\<close> of which only the operations the code applies are used
    (\<open>+\<close>, \<open>*\<close>, \<open>0\<close>, \<open>1\<close>), with no law assumed about them.
  \<^item> A pointer to a buffer of the engine is the list of the buffer's cells; a callback
    takes the buffer and returns it updated. A pointer that the code tests for null is an
    \<open>option\<close>.
  \<^item> A failed \<^verbatim>\<open>assert\<close> aborts the process: the callback's result is \<open>Inl AssertionFailed\<close>.
\<close>

type_synonym Index = "32 word"

datatype error = AssertionFailed

datatype LinearityType = LINEAR | NON_LINEAR

datatype IndexStyleEnum = C_STYLE | FORTRAN_STYLE

text \<open>
  The classes of the problem library that the source names. \<^verbatim>\<open>cfsqp_tag\<close> is overloaded
  on them, and the overload is chosen from the static type of the argument, not from the
  class of the object that is passed.
\<close>

datatype function_class = Function | TwiceDerivableFunction | LinearFunction

text \<open>
  A vector of the problem library is the list of its cells. A matrix is read through its
  element access \<^verbatim>\<open>m (i, j)\<close> only, so it is the function from the row and the column to
  the entry.
\<close>

type_synonym 'a vector_t = "'a list"

type_synonym 'a matrix_t = "nat \<Rightarrow> nat \<Rightarrow> 'a"

text \<open>
  A function object of the problem: the class it was declared with, and its query
  contract: the input size \<^verbatim>\<open>n\<close>, the evaluation \<^verbatim>\<open>f (x)\<close> (a vector of outputs),
  \<^verbatim>\<open>f.gradient (x, k)\<close> and \<^verbatim>\<open>f.hessian (x, k)\<close> for the output component \<open>k\<close>.
\<close>

record 'a twice_derivable =
  fn_class :: function_class
  fn_n :: nat
  fn_apply :: "'a vector_t \<Rightarrow> 'a vector_t"
  fn_gradient :: "'a vector_t \<Rightarrow> nat \<Rightarrow> 'a vector_t"
  fn_hessian :: "'a vector_t \<Rightarrow> nat \<Rightarrow> 'a matrix_t"

text \<open>
  The problem: \<^verbatim>\<open>problem ().function ()\<close>, \<^verbatim>\<open>problem ().constraints ()\<close> in declared order
  and \<^verbatim>\<open>problem ().startingPoint ()\<close>.
\<close>

record 'a problem_t =
  pb_function :: "'a twice_derivable"
  constraints :: "'a twice_derivable list"
  startingPoint :: "'a vector_t option"

text \<open>
  The results of the problem library: \<^verbatim>\<open>Result\<close> with its members \<^verbatim>\<open>x\<close>, \<^verbatim>\<open>value\<close> and
  \<^verbatim>\<open>lambda\<close>, \<^verbatim>\<open>ResultWithWarnings\<close> which extends it by \<^verbatim>\<open>warnings\<close>, and the variant
  \<^verbatim>\<open>result_t\<close> that the solver stores.
\<close>

record 'a Result =
  res_x :: "'a vector_t"
  res_value :: "'a vector_t"
  res_lambda :: "'a vector_t"

record 'a ResultWithWarnings = "'a Result" +
  warnings :: "string list"

datatype 'a result_t =
    NoSolution
  | IsResult "'a Result"
  | IsResultWithWarnings "'a ResultWithWarnings"
  | SolverError string

text \<open>The solver: \<^verbatim>\<open>solver_.problem ()\<close> and the slot \<^verbatim>\<open>solver_.result_\<close>.\<close>

record 'a IpoptSolver =
  problem :: "'a problem_t"
  result_slot :: "'a result_t"

section \<open>Helpers of the callbacks\<close>

text \<open>
  \<^verbatim>\<open>assert (size - n == 0)\<close>, where \<open>size\<close> is an unsigned size of the problem and \<open>n\<close> the
  \<^verbatim>\<open>Index\<close> the engine passes: the difference is taken in the unsigned type, and is zero
  exactly when the size is the signed value of \<open>n\<close> (a size is far below the range where a
  negative \<open>n\<close> could wrap onto it).
\<close>

definition size_agrees :: "nat \<Rightarrow> Index \<Rightarrow> bool" where
  "size_agrees sz n \<longleftrightarrow> int sz = sint n"

text \<open>
  \<^verbatim>\<open>for (Index i = 0; i < bound; ++i) body\<close>: the body runs for \<open>i = 0, 1, ...\<close> below the
  signed value of \<open>bound\<close>, not at all when that is not positive. The loop variable stays
  below \<open>bound\<close>, so it never overflows: the body receives it as a natural number, and
  stores it as the \<^verbatim>\<open>Index\<close> \<open>of_nat i\<close>.
\<close>

definition for_loop :: "Index \<Rightarrow> (nat \<Rightarrow> 's \<Rightarrow> 's) \<Rightarrow> 's \<Rightarrow> 's" where
  "for_loop bound body s = fold body [0..<nat (sint bound)] s"

text \<open>
  \<^verbatim>\<open>buf[idx] = v\<close> and \<^verbatim>\<open>buf[idx]\<close> with an \<^verbatim>\<open>int\<close> index. An access outside the buffer is
  undefined in C++: the model's store leaves the buffer as it is, and nothing is proved
  about what its load reads there.
\<close>

definition store :: "'b list \<Rightarrow> Index \<Rightarrow> 'b \<Rightarrow> 'b list" where
  "store buf idx v = (if 0 \<le> sint idx then buf[nat (sint idx) := v] else buf)"

definition load :: "'b list \<Rightarrow> Index \<Rightarrow> 'b" where
  "load buf idx = buf ! nat (sint idx)"

text \<open>
  \<^verbatim>\<open>vector_t v (sz)\<close>: a fresh vector of \<open>sz\<close> cells. C++ leaves their content unspecified;
  the model fills them with \<open>0\<close>, and every cell the callbacks read has been written first.
  \<^verbatim>\<open>v.resize (sz)\<close> keeps the cells that remain.
\<close>

definition vector_t :: "nat \<Rightarrow> 'a::zero vector_t" where
  "vector_t sz = replicate sz 0"

definition resize :: "'a::zero vector_t \<Rightarrow> nat \<Rightarrow> 'a vector_t" where
  "resize v sz = take sz v @ vector_t (sz - length v)"

text \<open>
  Modelled from the spec: the array/container bridge, whose two copies \<^verbatim>\<open>array_to_vector\<close>
  and \<^verbatim>\<open>vector_to_array\<close> are declared in \<^verbatim>\<open>roboptim/core/util.hh\<close>, a header of the problem
  library. It copies the scalars preserving index order, and the caller pre-sizes the
  destination: \<^verbatim>\<open>array_to_vector (dst, src)\<close> fills the \<^verbatim>\<open>dst.size ()\<close> cells of the vector
  from the buffer, and \<^verbatim>\<open>vector_to_array (dst, src)\<close> writes the \<^verbatim>\<open>src.size ()\<close> cells of the
  vector at the start of the buffer.
\<close>

definition array_to_vector :: "'a vector_t \<Rightarrow> 'a list \<Rightarrow> 'a vector_t" where
  "array_to_vector dst src = map (\<lambda>i. src ! i) [0..<length dst]"

definition vector_to_array :: "'a list \<Rightarrow> 'a vector_t \<Rightarrow> 'a list" where
  "vector_to_array dst src = src @ drop (length src) dst"

text \<open>
  Modelled from the spec: \<^verbatim>\<open>jacobian_from_gradients\<close> of the same header. The Jacobian
  values are computed by evaluating each constraint's gradient at \<open>x\<close> and writing its
  components into row \<open>i\<close>.
\<close>

definition jacobian_from_gradients ::
  "'a twice_derivable list \<Rightarrow> 'a vector_t \<Rightarrow> 'a matrix_t" where
  "jacobian_from_gradients c x = (\<lambda>i j. fn_gradient (c ! i) x 0 ! j)"

text \<open>The scalar multiple \<^verbatim>\<open>a * m\<close> and the sum \<^verbatim>\<open>h += m\<close> of matrices, entry by entry.\<close>

definition scalar_times :: "'a::times \<Rightarrow> 'a matrix_t \<Rightarrow> 'a matrix_t" where
  "scalar_times a m = (\<lambda>i j. a * m i j)"

definition matrix_plus :: "'a::plus matrix_t \<Rightarrow> 'a matrix_t \<Rightarrow> 'a matrix_t" where
  "matrix_plus h m = (\<lambda>i j. h i j + m i j)"

text \<open>
  The constructors \<^verbatim>\<open>Result res (n, 1)\<close> and \<^verbatim>\<open>ResultWithWarnings res (n, 1)\<close> of the problem
  library take the input and the output size only, not the number of constraints: \<^verbatim>\<open>x\<close>
  has the input size (the code fills it by \<^verbatim>\<open>array_to_vector\<close> without sizing it), \<^verbatim>\<open>value\<close>
  the output size (the code assigns its cell \<open>0\<close>), and \<^verbatim>\<open>lambda\<close> is empty (the
  \<^verbatim>\<open>SUCCESS\<close> branch sizes it itself, by \<^verbatim>\<open>res.lambda.resize (m)\<close>).
\<close>

definition Result_new :: "nat \<Rightarrow> nat \<Rightarrow> 'a::zero Result" where
  "Result_new inputSize outputSize =
     \<lparr> res_x = vector_t inputSize, res_value = vector_t outputSize, res_lambda = [] \<rparr>"

definition ResultWithWarnings_new :: "nat \<Rightarrow> nat \<Rightarrow> 'a::zero ResultWithWarnings" where
  "ResultWithWarnings_new inputSize outputSize =
     \<lparr> res_x = vector_t inputSize, res_value = vector_t outputSize, res_lambda = [],
       warnings = [] \<rparr>"

section \<open>Structural queries\<close>

text \<open>
  \<^verbatim>\<open>MyTNLP::get_nlp_info\<close>. The sizes of the problem are converted to \<^verbatim>\<open>Index\<close> and the two
  dense counts are products of \<^verbatim>\<open>Index\<close> values. The result is the returned flag and the
  five reference parameters in their order.
\<close>

definition get_nlp_info ::
  "'a IpoptSolver \<Rightarrow> bool \<times> Index \<times> Index \<times> Index \<times> Index \<times> IndexStyleEnum" where
  "get_nlp_info solver =
     (let n = of_nat (fn_n (pb_function (problem solver)));
          m = of_nat (length (constraints (problem solver)));
          nnz_jac_g = n * m;
          nnz_h_lag = n * n;
          index_style = C_STYLE
      in (True, n, m, nnz_jac_g, nnz_h_lag, index_style))"

text \<open>
  \<^verbatim>\<open>cfsqp_tag\<close>: the overload for \<^verbatim>\<open>const LinearFunction&\<close> answers \<^verbatim>\<open>LINEAR\<close>, the one for
  \<^verbatim>\<open>const Function&\<close> answers \<^verbatim>\<open>NON_LINEAR\<close>. The first argument of the model is the static
  type of the expression that is passed: an expression of static type \<^verbatim>\<open>LinearFunction\<close>
  goes to the first overload, an expression of any other class to the second, whatever
  the object \<open>f\<close> is.
\<close>

fun cfsqp_tag :: "function_class \<Rightarrow> 'a twice_derivable \<Rightarrow> LinearityType" where
  "cfsqp_tag LinearFunction f = LINEAR"
| "cfsqp_tag static f = NON_LINEAR"

text \<open>
  The static type of the expressions \<^verbatim>\<open>problem ().function ()\<close> and
  \<^verbatim>\<open>*problem ().constraints ()[i]\<close>. The source fixes it: \<^verbatim>\<open>compute_hessian\<close> takes the Hessian
  of the first as a \<^verbatim>\<open>TwiceDerivableFunction::hessian_t\<close>, and \<^verbatim>\<open>eval_jac_g\<close> passes the
  container of the second to \<^verbatim>\<open>jacobian_from_gradients<TwiceDerivableFunction>\<close>.
\<close>

definition problem_static_class :: function_class where
  "problem_static_class = TwiceDerivableFunction"

text \<open>\<^verbatim>\<open>MyTNLP::get_variables_linearity\<close> and \<^verbatim>\<open>MyTNLP::get_function_linearity\<close>.\<close>

definition get_variables_linearity ::
  "'a IpoptSolver \<Rightarrow> Index \<Rightarrow> LinearityType list \<Rightarrow> error + bool \<times> LinearityType list" where
  "get_variables_linearity solver n var_types =
     (if \<not> size_agrees (fn_n (pb_function (problem solver))) n then Inl AssertionFailed
      else Inr (True,
        for_loop n (\<lambda>i vt. vt[i := cfsqp_tag problem_static_class (pb_function (problem solver))])
          var_types))"

definition get_function_linearity ::
  "'a IpoptSolver \<Rightarrow> Index \<Rightarrow> LinearityType list \<Rightarrow> error + bool \<times> LinearityType list" where
  "get_function_linearity solver m const_types =
     (if \<not> size_agrees (length (constraints (problem solver))) m then Inl AssertionFailed
      else Inr (True,
        for_loop m (\<lambda>i ct.
          ct[i := cfsqp_tag problem_static_class (constraints (problem solver) ! i)])
          const_types))"

text \<open>
  \<^verbatim>\<open>MyTNLP::get_starting_point\<close>. The result is the returned flag, the solver (whose result
  slot the failure branch writes) and the buffers \<open>x\<close>, \<open>z_L\<close> and \<open>z_U\<close>.
\<close>

definition get_starting_point ::
  "'a::one IpoptSolver \<Rightarrow> Index \<Rightarrow> bool \<Rightarrow> 'a list \<Rightarrow> bool \<Rightarrow> 'a list \<Rightarrow> 'a list \<Rightarrow>
   Index \<Rightarrow> bool \<Rightarrow> 'a list \<Rightarrow> error + bool \<times> 'a IpoptSolver \<times> 'a list \<times> 'a list \<times> 'a list" where
  "get_starting_point solver n init_x x init_z z_L z_U m init_lambda lambda =
     (if \<not> size_agrees (fn_n (pb_function (problem solver))) n then Inl AssertionFailed
      else if \<not> size_agrees (length (constraints (problem solver))) m then Inl AssertionFailed
      else if \<not> (init_lambda = False) then Inl AssertionFailed
      else
        let (z_L', z_U') =
              (if init_z
               then for_loop n (\<lambda>i (zl, zu). (zl[i := 1], zu[i := 1])) (z_L, z_U)
               else (z_L, z_U))
        in if startingPoint (problem solver) = None \<and> init_x
           then Inr (False,
                  solver\<lparr>result_slot := SolverError ''Ipopt method needs a starting point.''\<rparr>,
                  x, z_L', z_U')
           else if startingPoint (problem solver) = None
           then Inr (True, solver, x, z_L', z_U')
           else Inr (True, solver,
                  vector_to_array x (the (startingPoint (problem solver))), z_L', z_U'))"

section \<open>Value queries\<close>

text \<open>\<^verbatim>\<open>MyTNLP::eval_f\<close>: the returned flag and \<^verbatim>\<open>obj_value\<close>.\<close>

definition eval_f ::
  "'a::zero IpoptSolver \<Rightarrow> Index \<Rightarrow> 'a list \<Rightarrow> bool \<Rightarrow> error + bool \<times> 'a" where
  "eval_f solver n x new_x =
     (if \<not> size_agrees (fn_n (pb_function (problem solver))) n then Inl AssertionFailed
      else
        let x_v = array_to_vector (vector_t (nat (sint n))) x;
            obj_value = fn_apply (pb_function (problem solver)) x_v ! 0
        in Inr (True, obj_value))"

text \<open>\<^verbatim>\<open>MyTNLP::eval_grad_f\<close>: the returned flag and the buffer \<^verbatim>\<open>grad_f\<close>.\<close>

definition eval_grad_f ::
  "'a::zero IpoptSolver \<Rightarrow> Index \<Rightarrow> 'a list \<Rightarrow> bool \<Rightarrow> 'a list \<Rightarrow> error + bool \<times> 'a list" where
  "eval_grad_f solver n x new_x grad_f =
     (if \<not> size_agrees (fn_n (pb_function (problem solver))) n then Inl AssertionFailed
      else
        let x_v = array_to_vector (vector_t (nat (sint n))) x;
            grad = fn_gradient (pb_function (problem solver)) x_v 0
        in Inr (True, vector_to_array grad_f grad))"

text \<open>
  \<^verbatim>\<open>MyTNLP::eval_g\<close>. The loop walks the constraints with the iterator \<open>it\<close> and counts the
  \<^verbatim>\<open>int\<close> \<open>i\<close> beside it.
\<close>

fun eval_g_loop ::
  "'a twice_derivable list \<Rightarrow> 'a vector_t \<Rightarrow> Index \<Rightarrow> 'a vector_t \<Rightarrow> 'a vector_t" where
  "eval_g_loop [] x_v i g_v = g_v"
| "eval_g_loop (it # rest) x_v i g_v =
     eval_g_loop rest x_v (i + 1) (store g_v i (fn_apply it x_v ! 0))"

definition eval_g ::
  "'a::zero IpoptSolver \<Rightarrow> Index \<Rightarrow> 'a list \<Rightarrow> bool \<Rightarrow> Index \<Rightarrow> 'a list \<Rightarrow>
   error + bool \<times> 'a list" where
  "eval_g solver n x new_x m g =
     (if \<not> size_agrees (fn_n (pb_function (problem solver))) n then Inl AssertionFailed
      else if \<not> size_agrees (length (constraints (problem solver))) m then Inl AssertionFailed
      else
        let x_v = array_to_vector (vector_t (nat (sint n))) x;
            g_v = eval_g_loop (constraints (problem solver)) x_v 0 (vector_t (nat (sint m)))
        in Inr (True, vector_to_array g g_v))"

text \<open>
  \<^verbatim>\<open>MyTNLP::eval_jac_g\<close>. With a null \<^verbatim>\<open>values\<close> the dense index pairs are written to \<^verbatim>\<open>iRow\<close>
  and \<^verbatim>\<open>jCol\<close>, else the entries of the Jacobian to \<^verbatim>\<open>values\<close>; the \<^verbatim>\<open>int\<close> \<open>idx\<close> is the
  position written next. The result is the returned flag and the three buffers.
\<close>

definition eval_jac_g ::
  "'a::zero IpoptSolver \<Rightarrow> Index \<Rightarrow> 'a list \<Rightarrow> bool \<Rightarrow> Index \<Rightarrow> Index \<Rightarrow>
   Index list \<Rightarrow> Index list \<Rightarrow> 'a list option \<Rightarrow>
   error + bool \<times> Index list \<times> Index list \<times> 'a list option" where
  "eval_jac_g solver n x new_x m nele_jac iRow jCol values =
     (if \<not> size_agrees (fn_n (pb_function (problem solver))) n then Inl AssertionFailed
      else if \<not> size_agrees (length (constraints (problem solver))) m then Inl AssertionFailed
      else case values of
        None \<Rightarrow>
          let (idx, iRow', jCol') =
                for_loop m (\<lambda>i. for_loop n (\<lambda>j (idx, iR, jC).
                  (idx + 1, store iR idx (of_nat i), store jC idx (of_nat j)))) (0, iRow, jCol)
          in Inr (True, iRow', jCol', None)
      | Some vals \<Rightarrow>
          let x_v = array_to_vector (vector_t (nat (sint n))) x;
              jac = jacobian_from_gradients (constraints (problem solver)) x_v;
              (idx, vals') =
                for_loop m (\<lambda>i. for_loop n (\<lambda>j (idx, v).
                  (idx + 1, store v idx (jac i j)))) (0, vals)
          in Inr (True, iRow, jCol, Some vals'))"

text \<open>
  \<^verbatim>\<open>MyTNLP::compute_hessian\<close>: \<open>h\<close> starts as the scaled Hessian of the objective; the loop
  walks the constraints with the iterator \<open>it\<close> and reads \<^verbatim>\<open>lambda[i++]\<close>, with the \<^verbatim>\<open>int\<close>
  \<open>i\<close>, beside it.
\<close>

fun compute_hessian_loop ::
  "'a::{plus,times} twice_derivable list \<Rightarrow> 'a vector_t \<Rightarrow> 'a list \<Rightarrow> Index \<Rightarrow>
   'a matrix_t \<Rightarrow> 'a matrix_t" where
  "compute_hessian_loop [] x lambda i h = h"
| "compute_hessian_loop (it # rest) x lambda i h =
     compute_hessian_loop rest x lambda (i + 1)
       (matrix_plus h (scalar_times (load lambda i) (fn_hessian it x 0)))"

definition compute_hessian ::
  "'a::{plus,times} IpoptSolver \<Rightarrow> 'a vector_t \<Rightarrow> 'a \<Rightarrow> 'a list \<Rightarrow> 'a matrix_t" where
  "compute_hessian solver x obj_factor lambda =
     (let fct_h = fn_hessian (pb_function (problem solver)) x 0;
          h = scalar_times obj_factor fct_h
      in compute_hessian_loop (constraints (problem solver)) x lambda 0 h)"

text \<open>
  \<^verbatim>\<open>MyTNLP::eval_h\<close>, in the two phases of \<^verbatim>\<open>eval_jac_g\<close>; the structure phase ends with
  \<^verbatim>\<open>assert (idx == nele_hess)\<close>. The value phase builds the vector \<^verbatim>\<open>lambda_\<close> and then
  passes the buffer \<^verbatim>\<open>lambda\<close> itself to \<^verbatim>\<open>compute_hessian\<close>.
\<close>

definition eval_h ::
  "'a::{zero,plus,times} IpoptSolver \<Rightarrow> Index \<Rightarrow> 'a list \<Rightarrow> bool \<Rightarrow> 'a \<Rightarrow> Index \<Rightarrow> 'a list \<Rightarrow>
   bool \<Rightarrow> Index \<Rightarrow> Index list \<Rightarrow> Index list \<Rightarrow> 'a list option \<Rightarrow>
   error + bool \<times> Index list \<times> Index list \<times> 'a list option" where
  "eval_h solver n x new_x obj_factor m lambda new_lambda nele_hess iRow jCol values =
     (if \<not> size_agrees (fn_n (pb_function (problem solver))) n then Inl AssertionFailed
      else if \<not> size_agrees (length (constraints (problem solver))) m then Inl AssertionFailed
      else case values of
        None \<Rightarrow>
          let (idx, iRow', jCol') =
                for_loop n (\<lambda>i. for_loop n (\<lambda>j (idx, iR, jC).
                  (idx + 1, store iR idx (of_nat i), store jC idx (of_nat j)))) (0, iRow, jCol)
          in if \<not> (idx = nele_hess) then Inl AssertionFailed
             else Inr (True, iRow', jCol', None)
      | Some vals \<Rightarrow>
          let x_v = array_to_vector (vector_t (nat (sint n))) x;
              lambda_v = array_to_vector (vector_t (nat (sint m))) lambda;
              h = compute_hessian solver x_v obj_factor lambda;
              (idx, vals') =
                for_loop n (\<lambda>i. for_loop n (\<lambda>j (idx, v).
                  (idx + 1, store v idx (h i j)))) (0, vals)
          in Inr (True, iRow, jCol, Some vals'))"

text \<open>
  \<^verbatim>\<open>MyTNLP::intermediate_callback\<close>, without the two pointers into the engine's data that
  it ignores as it ignores every other argument.
\<close>

datatype AlgorithmMode = RegularMode | RestorationPhaseMode

definition intermediate_callback ::
  "AlgorithmMode \<Rightarrow> Index \<Rightarrow> 'a \<Rightarrow> 'a \<Rightarrow> 'a \<Rightarrow> 'a \<Rightarrow> 'a \<Rightarrow> 'a \<Rightarrow> 'a \<Rightarrow> 'a \<Rightarrow> Index \<Rightarrow> bool" where
  "intermediate_callback mode iter obj_value inf_pr inf_du mu d_norm regularization_size
     alpha_du alpha_pr ls_trials = True"

section \<open>The outcome translator\<close>

text \<open>
  The engine's enumeration \<^verbatim>\<open>SolverReturn\<close>, with the enumerators that the \<^verbatim>\<open>switch\<close> of
  \<^verbatim>\<open>finalize_solution\<close> names.
\<close>

datatype SolverReturn =
    SUCCESS
  | MAXITER_EXCEEDED
  | STOP_AT_TINY_STEP
  | STOP_AT_ACCEPTABLE_POINT
  | LOCAL_INFEASIBILITY
  | USER_REQUESTED_STOP
  | FEASIBLE_POINT_FOUND
  | DIVERGING_ITERATES
  | RESTORATION_FAILURE
  | ERROR_IN_STEP_COMPUTATION
  | INVALID_NUMBER_DETECTED
  | TOO_FEW_DEGREES_OF_FREEDOM
  | INVALID_OPTION
  | OUT_OF_MEMORY
  | INTERNAL_ERROR

text \<open>
  The block that the labels \<^verbatim>\<open>FEASIBLE_POINT_FOUND\<close> and \<^verbatim>\<open>SUCCESS\<close> of
  \<^verbatim>\<open>MyTNLP::finalize_solution\<close> share.
\<close>

definition finalize_success ::
  "'a::zero IpoptSolver \<Rightarrow> Index \<Rightarrow> 'a list \<Rightarrow> Index \<Rightarrow> 'a list \<Rightarrow> 'a \<Rightarrow>
   error + 'a IpoptSolver" where
  "finalize_success solver n x m lambda obj_value =
     (let res = Result_new (nat (sint n)) 1;
          res = res\<lparr>res_x := array_to_vector (res_x res) x\<rparr>;
          res = res\<lparr>res_lambda := resize (res_lambda res) (nat (sint m))\<rparr>;
          res = res\<lparr>res_lambda := array_to_vector (res_lambda res) lambda\<rparr>;
          res = res\<lparr>res_value := (res_value res)[0 := obj_value]\<rparr>
      in Inr (solver\<lparr>result_slot := IsResult res\<rparr>))"

text \<open>
  The \<^verbatim>\<open>switch\<close> of \<^verbatim>\<open>MyTNLP::finalize_solution\<close>, one equation for each \<^verbatim>\<open>case\<close> label in the
  order of the source.
\<close>

fun finalize_switch ::
  "SolverReturn \<Rightarrow> 'a::zero IpoptSolver \<Rightarrow> Index \<Rightarrow> 'a list \<Rightarrow> Index \<Rightarrow> 'a list \<Rightarrow> 'a \<Rightarrow>
   error + 'a IpoptSolver" where
  "finalize_switch FEASIBLE_POINT_FOUND solver n x m lambda obj_value =
     finalize_success solver n x m lambda obj_value"
| "finalize_switch SUCCESS solver n x m lambda obj_value =
     finalize_success solver n x m lambda obj_value"
| "finalize_switch MAXITER_EXCEEDED solver n x m lambda obj_value =
     Inr (solver\<lparr>result_slot := SolverError ''Max iteration exceeded.''\<rparr>)"
| "finalize_switch STOP_AT_TINY_STEP solver n x m lambda obj_value =
     Inr (solver\<lparr>result_slot :=
       SolverError ''Algorithm proceeds with very little progress.''\<rparr>)"
| "finalize_switch STOP_AT_ACCEPTABLE_POINT solver n x m lambda obj_value =
     (let res = ResultWithWarnings_new (nat (sint n)) 1;
          res = res\<lparr>res_x := array_to_vector (res_x res) x\<rparr>;
          res = res\<lparr>res_lambda := array_to_vector (res_lambda res) lambda\<rparr>;
          res = res\<lparr>res_value := (res_value res)[0 := obj_value]\<rparr>;
          res = res\<lparr>warnings := warnings res @ [''Acceptable point.'']\<rparr>
      in Inr (solver\<lparr>result_slot := IsResultWithWarnings res\<rparr>))"
| "finalize_switch LOCAL_INFEASIBILITY solver n x m lambda obj_value =
     Inr (solver\<lparr>result_slot :=
       SolverError ''Algorithm converged to a point of local infeasibility.''\<rparr>)"
| "finalize_switch USER_REQUESTED_STOP solver n x m lambda obj_value =
     Inl AssertionFailed"
| "finalize_switch DIVERGING_ITERATES solver n x m lambda obj_value =
     Inr (solver\<lparr>result_slot := SolverError ''Iterate diverges.''\<rparr>)"
| "finalize_switch RESTORATION_FAILURE solver n x m lambda obj_value =
     Inr (solver\<lparr>result_slot := SolverError ''Restoration phase failed.''\<rparr>)"
| "finalize_switch ERROR_IN_STEP_COMPUTATION solver n x m lambda obj_value =
     Inr (solver\<lparr>result_slot := SolverError
       ''Unrecoverable error while IPOPT tried to compute the search direction.''\<rparr>)"
| "finalize_switch INVALID_NUMBER_DETECTED solver n x m lambda obj_value =
     Inr (solver\<lparr>result_slot := SolverError ''IPOPT received an invalid number.''\<rparr>)"
| "finalize_switch INTERNAL_ERROR solver n x m lambda obj_value =
     Inr (solver\<lparr>result_slot := SolverError ''Unknown internal error.''\<rparr>)"
| "finalize_switch TOO_FEW_DEGREES_OF_FREEDOM solver n x m lambda obj_value =
     Inr (solver\<lparr>result_slot := SolverError ''Two few degrees of freedom.''\<rparr>)"
| "finalize_switch INVALID_OPTION solver n x m lambda obj_value =
     Inr (solver\<lparr>result_slot := SolverError ''Invalid option.''\<rparr>)"
| "finalize_switch OUT_OF_MEMORY solver n x m lambda obj_value =
     Inr (solver\<lparr>result_slot := SolverError ''Out of memory.''\<rparr>)"

text \<open>
  \<^verbatim>\<open>MyTNLP::finalize_solution\<close>: the two assertions on the sizes, then the \<^verbatim>\<open>switch\<close>. Its
  effect is on the solver's result slot.
\<close>

definition finalize_solution ::
  "'a::zero IpoptSolver \<Rightarrow> SolverReturn \<Rightarrow> Index \<Rightarrow> 'a list \<Rightarrow> 'a list \<Rightarrow> 'a list \<Rightarrow> Index \<Rightarrow>
   'a list \<Rightarrow> 'a list \<Rightarrow> 'a \<Rightarrow> error + 'a IpoptSolver" where
  "finalize_solution solver status n x z_L z_U m g lambda obj_value =
     (if \<not> size_agrees (fn_n (pb_function (problem solver))) n then Inl AssertionFailed
      else if \<not> size_agrees (length (constraints (problem solver))) m then Inl AssertionFailed
      else finalize_switch status solver n x m lambda obj_value)"

section \<open>The solver facade\<close>

text \<open>
  The engine's enumeration \<^verbatim>\<open>ApplicationReturnStatus\<close>, with the enumerators that the
  \<^verbatim>\<open>switch\<close> of \<^verbatim>\<open>IpoptSolver::solve\<close> names.
\<close>

datatype ApplicationReturnStatus =
    Solve_Succeeded
  | Solved_To_Acceptable_Level
  | Infeasible_Problem_Detected
  | Search_Direction_Becomes_Too_Small
  | Diverging_Iterates
  | User_Requested_Stop
  | Feasible_Point_Found
  | Maximum_Iterations_Exceeded
  | Restoration_Failed
  | Error_In_Step_Computation
  | Not_Enough_Degrees_Of_Freedom
  | Invalid_Problem_Definition
  | Invalid_Option
  | Invalid_Number_Detected
  | Unrecoverable_Exception
  | NonIpopt_Exception_Thrown
  | Insufficient_Memory
  | Internal_Error

text \<open>
  The engine's application object \<^verbatim>\<open>app_\<close> is not code of the adapter: what
  \<^verbatim>\<open>app_->Initialize ("")\<close> returns and what \<^verbatim>\<open>app_->OptimizeTNLP (nlp_)\<close> does to the solver
  (through the callbacks) are its two fields.
\<close>

record 'a IpoptApplication =
  Initialize :: ApplicationReturnStatus
  OptimizeTNLP :: "'a IpoptSolver \<Rightarrow> 'a IpoptSolver"

text \<open>
  The \<^verbatim>\<open>switch\<close> of \<^verbatim>\<open>IpoptSolver::solve\<close>, one equation for each \<^verbatim>\<open>case\<close> label in the order
  of the source. The result is the solver after the call, with the flag that tells
  whether \<^verbatim>\<open>OptimizeTNLP\<close> has been called.
\<close>

fun solve_switch ::
  "ApplicationReturnStatus \<Rightarrow> 'a IpoptApplication \<Rightarrow> 'a IpoptSolver \<Rightarrow>
   error + bool \<times> 'a IpoptSolver" where
  "solve_switch Solve_Succeeded app solver = Inr (True, OptimizeTNLP app solver)"
| "solve_switch Solved_To_Acceptable_Level app solver = Inr (True, OptimizeTNLP app solver)"
| "solve_switch Infeasible_Problem_Detected app solver =
     Inr (False, solver\<lparr>result_slot := SolverError ''Ipopt: infeasible problem detected.''\<rparr>)"
| "solve_switch Search_Direction_Becomes_Too_Small app solver =
     Inr (False, solver\<lparr>result_slot := SolverError ''Ipopt: search direction too small.''\<rparr>)"
| "solve_switch Diverging_Iterates app solver =
     Inr (False, solver\<lparr>result_slot := SolverError ''Ipopt: diverging iterates.''\<rparr>)"
| "solve_switch User_Requested_Stop app solver = Inl AssertionFailed"
| "solve_switch Feasible_Point_Found app solver = Inr (True, OptimizeTNLP app solver)"
| "solve_switch Maximum_Iterations_Exceeded app solver =
     Inr (False, solver\<lparr>result_slot := SolverError ''Ipopt: maximum iterations exceeded.''\<rparr>)"
| "solve_switch Restoration_Failed app solver =
     Inr (False, solver\<lparr>result_slot := SolverError ''Ipopt: restoration failed.''\<rparr>)"
| "solve_switch Error_In_Step_Computation app solver =
     Inr (False, solver\<lparr>result_slot := SolverError ''Ipopt: error in step computation.''\<rparr>)"
| "solve_switch Not_Enough_Degrees_Of_Freedom app solver =
     Inr (False, solver\<lparr>result_slot :=
       SolverError ''Ipopt: not enough degrees of freedom.''\<rparr>)"
| "solve_switch Invalid_Problem_Definition app solver =
     Inr (False, solver\<lparr>result_slot := SolverError ''Ipopt: invalid problem definition.''\<rparr>)"
| "solve_switch Invalid_Option app solver =
     Inr (False, solver\<lparr>result_slot := SolverError ''Ipopt: invalid option.''\<rparr>)"
| "solve_switch Invalid_Number_Detected app solver =
     Inr (False, solver\<lparr>result_slot := SolverError ''Ipopt: invalid number detected.''\<rparr>)"
| "solve_switch Unrecoverable_Exception app solver =
     Inr (False, solver\<lparr>result_slot := SolverError ''Ipopt: unrecoverable exception.''\<rparr>)"
| "solve_switch NonIpopt_Exception_Thrown app solver = Inl AssertionFailed"
| "solve_switch Insufficient_Memory app solver =
     Inr (False, solver\<lparr>result_slot := SolverError ''Ipopt: insufficient memory.''\<rparr>)"
| "solve_switch Internal_Error app solver =
     Inr (False, solver\<lparr>result_slot := SolverError ''Ipopt: internal error.''\<rparr>)"

text \<open>\<^verbatim>\<open>IpoptSolver::solve\<close>.\<close>

definition solve :: "'a IpoptApplication \<Rightarrow> 'a IpoptSolver \<Rightarrow> error + bool \<times> 'a IpoptSolver" where
  "solve app solver = (let status = Initialize app in solve_switch status app solver)"

section \<open>Reading the results\<close>

text \<open>
  What a callback tells the engine: the flag it returns, or nothing when an assertion
  has aborted it.
\<close>

definition returned :: "error + bool \<times> 'b \<Rightarrow> bool option" where
  "returned r = (case r of Inl e \<Rightarrow> None | Inr (flag, out) \<Rightarrow> Some flag)"

text \<open>
  The outcome table as the specification words it, to be compared with the \<^verbatim>\<open>switch\<close> of
  \<^verbatim>\<open>finalize_solution\<close>: success and feasible point found give a success, the acceptable
  point a success with warnings, the eleven failure codes an error, and the user-requested
  stop has no outcome (it is treated as unreachable).
\<close>

datatype outcome = Success | SuccessWithWarnings | Error

fun outcome_table :: "SolverReturn \<Rightarrow> outcome option" where
  "outcome_table SUCCESS = Some Success"
| "outcome_table FEASIBLE_POINT_FOUND = Some Success"
| "outcome_table STOP_AT_ACCEPTABLE_POINT = Some SuccessWithWarnings"
| "outcome_table MAXITER_EXCEEDED = Some Error"
| "outcome_table STOP_AT_TINY_STEP = Some Error"
| "outcome_table LOCAL_INFEASIBILITY = Some Error"
| "outcome_table DIVERGING_ITERATES = Some Error"
| "outcome_table RESTORATION_FAILURE = Some Error"
| "outcome_table ERROR_IN_STEP_COMPUTATION = Some Error"
| "outcome_table INVALID_NUMBER_DETECTED = Some Error"
| "outcome_table INTERNAL_ERROR = Some Error"
| "outcome_table TOO_FEW_DEGREES_OF_FREEDOM = Some Error"
| "outcome_table INVALID_OPTION = Some Error"
| "outcome_table OUT_OF_MEMORY = Some Error"
| "outcome_table USER_REQUESTED_STOP = None"

fun outcome_of :: "'a result_t \<Rightarrow> outcome option" where
  "outcome_of NoSolution = None"
| "outcome_of (IsResult res) = Some Success"
| "outcome_of (IsResultWithWarnings res) = Some SuccessWithWarnings"
| "outcome_of (SolverError msg) = Some Error"

section \<open>An example problem\<close>

text \<open>
  Minimise \<open>x\<^sub>0\<^sup>2 + x\<^sub>1\<^sup>2\<close> under the constraints \<open>x\<^sub>0 + x\<^sub>1\<close> and \<open>x\<^sub>0 * x\<^sub>1\<close>, over the reals. The
  first constraint is declared as a linear function.
\<close>

definition example_objective :: "real twice_derivable" where
  "example_objective =
     \<lparr> fn_class = TwiceDerivableFunction,
       fn_n = 2,
       fn_apply = (\<lambda>x. [x ! 0 * x ! 0 + x ! 1 * x ! 1]),
       fn_gradient = (\<lambda>x k. [2 * x ! 0, 2 * x ! 1]),
       fn_hessian = (\<lambda>x k i j. if i = j then 2 else 0) \<rparr>"

definition example_sum :: "real twice_derivable" where
  "example_sum =
     \<lparr> fn_class = LinearFunction,
       fn_n = 2,
       fn_apply = (\<lambda>x. [x ! 0 + x ! 1]),
       fn_gradient = (\<lambda>x k. [1, 1]),
       fn_hessian = (\<lambda>x k i j. 0) \<rparr>"

definition example_product :: "real twice_derivable" where
  "example_product =
     \<lparr> fn_class = TwiceDerivableFunction,
       fn_n = 2,
       fn_apply = (\<lambda>x. [x ! 0 * x ! 1]),
       fn_gradient = (\<lambda>x k. [x ! 1, x ! 0]),
       fn_hessian = (\<lambda>x k i j. if i = j then 0 else 1) \<rparr>"

definition example_problem :: "real problem_t" where
  "example_problem =
     \<lparr> pb_function = example_objective,
       constraints = [example_sum, example_product],
       startingPoint = Some [1 / 2, 1 / 2] \<rparr>"

definition example_solver :: "real IpoptSolver" where
  "example_solver = \<lparr> problem = example_problem, result_slot = NoSolution \<rparr>"

text \<open>The same problem without a starting point.\<close>

definition example_solver_no_start :: "real IpoptSolver" where
  "example_solver_no_start =
     \<lparr> problem = example_problem\<lparr>startingPoint := None\<rparr>, result_slot = NoSolution \<rparr>"

text \<open>The same constraints under the linear objective \<open>x\<^sub>0 + x\<^sub>1\<close>.\<close>

definition example_solver_linear_objective :: "real IpoptSolver" where
  "example_solver_linear_objective =
     \<lparr> problem = example_problem\<lparr>pb_function := example_sum\<rparr>, result_slot = NoSolution \<rparr>"

text \<open>An engine whose initialisation succeeds and whose optimisation leaves the solver as it is.\<close>

definition example_app :: "real IpoptApplication" where
  "example_app = \<lparr> Initialize = Solve_Succeeded, OptimizeTNLP = (\<lambda>solver. solver) \<rparr>"

section \<open>Loop invariants\<close>

text \<open>
  The state of the two nested loops of a structure phase over a matrix with \<open>n\<close> columns,
  at row \<open>i\<close> and column \<open>j\<close>: \<open>idx\<close> is the row-major position of \<open>(i, j)\<close>, the two
  buffers keep their length \<open>L\<close>, and every position below that of \<open>(i, j)\<close> holds its row
  and its column.
\<close>

definition structure_inv ::
  "nat \<Rightarrow> nat \<Rightarrow> nat \<Rightarrow> nat \<Rightarrow> Index \<times> Index list \<times> Index list \<Rightarrow> bool" where
  "structure_inv L n i j st \<longleftrightarrow>
     (case st of (idx, iR, jC) \<Rightarrow>
        idx = of_nat (i * n + j) \<and> length iR = L \<and> length jC = L \<and>
        (\<forall>k. k < i * n + j \<longrightarrow> k < L \<longrightarrow>
           iR ! k = of_nat (k div n) \<and> jC ! k = of_nat (k mod n)))"

text \<open>
  The state of the two nested loops of a value phase that copies the matrix \<open>h\<close>: every
  position below \<open>idx\<close> holds the entry of \<open>h\<close> at its row and column.
\<close>

definition values_inv ::
  "nat \<Rightarrow> nat \<Rightarrow> 'a matrix_t \<Rightarrow> nat \<Rightarrow> nat \<Rightarrow> Index \<times> 'a list \<Rightarrow> bool" where
  "values_inv L n h i j st \<longleftrightarrow>
     (case st of (idx, v) \<Rightarrow>
        idx = of_nat (i * n + j) \<and> length v = L \<and>
        (\<forall>k. k < i * n + j \<longrightarrow> k < L \<longrightarrow> v ! k = h (k div n) (k mod n)))"

section \<open>Properties of the loops\<close>

lemmas example_defs = example_solver_def example_problem_def example_objective_def
  example_sum_def example_product_def

text \<open>An \<^verbatim>\<open>Index\<close> holds every natural number below \<open>2\<^sup>3\<^sup>1\<close>, and nothing larger.\<close>

lemma sint_of_nat_Index: "k < 2 ^ 31 \<Longrightarrow> sint (of_nat k :: Index) = int k"
  by transfer (simp add: signed_take_bit_int_eq_self)

lemma nat_sint_Index_less: "nat (sint (m :: Index)) < 2 ^ 31"
  using sint_lt [of m] by simp

lemma Index_count:
  assumes "sint (nele :: Index) = int k"
  shows "k < 2 ^ 31" and "of_nat k = nele"
proof -
  show "k < 2 ^ 31"
    using sint_lt [of nele] assms by simp
  have "(of_int (sint nele) :: Index) = nele" by simp
  then show "of_nat k = nele"
    using assms by simp
qed

lemma store_of_nat: "k < 2 ^ 31 \<Longrightarrow> store buf (of_nat k) v = buf[k := v]"
  by (simp add: store_def sint_of_nat_Index)

lemma load_of_nat: "k < 2 ^ 31 \<Longrightarrow> load buf (of_nat k) = buf ! k"
  by (simp add: load_def sint_of_nat_Index)

lemma size_agrees_nat: "size_agrees sz n \<Longrightarrow> nat (sint n) = sz"
  by (simp add: size_agrees_def)

lemma Index_of_row: 
  assumes "k < nat (sint (m :: Index)) * N"
  shows "nat (sint (of_nat (k div N) :: Index)) = k div N"
proof -
  have "k div N < nat (sint m)"
    using assms by (simp add: less_mult_imp_div_less)
  then have "k div N < 2 ^ 31"
    using nat_sint_Index_less [of m] by linarith
  then show ?thesis by (simp add: sint_of_nat_Index)
qed

lemma Index_of_column: 
  assumes "k < M * nat (sint (n :: Index))"
  shows "nat (sint (of_nat (k mod nat (sint n)) :: Index)) = k mod nat (sint n)"
proof -
  have "0 < nat (sint n)" using assms by (cases "nat (sint n)") auto
  then have "k mod nat (sint n) < nat (sint n)" by simp
  then have "k mod nat (sint n) < 2 ^ 31"
    using nat_sint_Index_less [of n] by linarith
  then show ?thesis by (simp add: sint_of_nat_Index)
qed

text \<open>The rule of the loop invariant, for \<open>fold\<close> over a range and for \<^const>\<open>for_loop\<close>.\<close>

lemma fold_upt_invariant:
  assumes "P 0 s" and "\<And>i s. i < k \<Longrightarrow> P i s \<Longrightarrow> P (Suc i) (body i s)"
  shows "P k (fold body [0..<k] s)"
  using assms(2)
proof (induction k)
  case 0
  show ?case using assms(1) by simp
next
  case (Suc k)
  have "P k (fold body [0..<k] s)"
    using Suc.IH Suc.prems by simp
  then show ?case
    using Suc.prems [of k "fold body [0..<k] s"] by simp
qed

lemma for_loop_invariant:
  assumes "P 0 s" and "\<And>i s. i < nat (sint bound) \<Longrightarrow> P i s \<Longrightarrow> P (Suc i) (body i s)"
  shows "P (nat (sint bound)) (for_loop bound body s)"
  unfolding for_loop_def using assms by (rule fold_upt_invariant)

text \<open>A loop that stores one value in every cell below its bound.\<close>

lemma for_loop_fill:
  "length (for_loop n (\<lambda>i b. b[i := v]) buf) = length buf \<and>
   (\<forall>k. k < length buf \<longrightarrow>
      for_loop n (\<lambda>i b. b[i := v]) buf ! k = (if k < nat (sint n) then v else buf ! k))"
proof (rule for_loop_invariant [where P = "\<lambda>i b. length b = length buf \<and>
   (\<forall>k. k < length buf \<longrightarrow> b ! k = (if k < i then v else buf ! k))"])
  show "length buf = length buf \<and> (\<forall>k<length buf. buf ! k = (if k < 0 then v else buf ! k))"
    by simp
next
  fix i s
  assume "length s = length buf \<and> (\<forall>k<length buf. s ! k = (if k < i then v else buf ! k))"
  then show "length (s[i := v]) = length buf \<and>
       (\<forall>k<length buf. s[i := v] ! k = (if k < Suc i then v else buf ! k))"
    by (auto simp: nth_list_update less_Suc_eq)
qed

lemma row_below_count:
  assumes "i < M" and "j < (N::nat)"
  shows "i * N + j < M * N"
proof -
  have "i * N + j < i * N + N" using assms(2) by simp
  also have "\<dots> = Suc i * N" by simp
  also have "\<dots> \<le> M * N" using assms(1) by (simp add: Suc_leI del: mult_Suc)
  finally show ?thesis .
qed

text \<open>The nested loops of the structure phases keep \<^const>\<open>structure_inv\<close>.\<close>

lemma structure_inner:
  assumes inv: "structure_inv L (nat (sint n)) i 0 st"
    and i: "i < M" and count: "M * nat (sint n) < 2 ^ 31"
  shows "structure_inv L (nat (sint n)) (Suc i) 0
           (for_loop n (\<lambda>j (idx, iR, jC).
              (idx + 1, store iR idx (of_nat i), store jC idx (of_nat j))) st)"
proof -
  let ?N = "nat (sint n)"
  let ?body = "\<lambda>j (idx, iR, jC).
     (idx + 1, store iR idx (of_nat i :: Index), store jC idx (of_nat j :: Index))"
  have "structure_inv L ?N i ?N (for_loop n ?body st)"
  proof (rule for_loop_invariant [where P = "structure_inv L ?N i"])
    show "structure_inv L ?N i 0 st" by (rule inv)
  next
    fix j s assume j: "j < ?N" and s_inv: "structure_inv L ?N i j s"
    obtain idx iR jC where s: "s = (idx, iR, jC)" by (cases s) auto
    from s_inv s have idx: "idx = of_nat (i * ?N + j)" and len: "length iR = L" "length jC = L"
      and old: "\<And>k. k < i * ?N + j \<Longrightarrow> k < L \<Longrightarrow>
         iR ! k = of_nat (k div ?N) \<and> jC ! k = of_nat (k mod ?N)"
      by (auto simp: structure_inv_def)
    have pos: "i * ?N + j < 2 ^ 31"
      using row_below_count [OF i j] count by linarith
    have st: "store iR idx v = iR[i * ?N + j := v]" "store jC idx v = jC[i * ?N + j := v]" for v
      unfolding idx using pos by (rule store_of_nat)+
    have next_idx: "idx + 1 = of_nat (i * ?N + Suc j)"
      unfolding idx by simp
    show "structure_inv L ?N i (Suc j) (?body j s)"
      unfolding s structure_inv_def
      using j len old by (auto simp: st next_idx nth_list_update less_Suc_eq)
  qed
  then show ?thesis
    by (auto simp: structure_inv_def)
qed

lemma structure_loops:
  assumes "length iRow = L" "length jCol = L"
    and count: "nat (sint m) * nat (sint n) < 2 ^ 31"
  shows "structure_inv L (nat (sint n)) (nat (sint m)) 0
     (for_loop m (\<lambda>i. for_loop n (\<lambda>j (idx, iR, jC).
         (idx + 1, store iR idx (of_nat i), store jC idx (of_nat j)))) (0, iRow, jCol))"
proof (rule for_loop_invariant [where P = "\<lambda>i. structure_inv L (nat (sint n)) i 0"])
  show "structure_inv L (nat (sint n)) 0 0 (0, iRow, jCol)"
    using assms(1,2) by (simp add: structure_inv_def)
next
  fix i s assume i: "i < nat (sint m)" and inv: "structure_inv L (nat (sint n)) i 0 s"
  show "structure_inv L (nat (sint n)) (Suc i) 0
    (for_loop n (\<lambda>j (idx, iR, jC).
       (idx + 1, store iR idx (of_nat i), store jC idx (of_nat j))) s)"
    using inv i count by (rule structure_inner)
qed

lemma structure_loops_idx:
  "fst (for_loop m (\<lambda>i. for_loop n (\<lambda>j (idx, iR, jC).
      (idx + 1, store iR idx (of_nat i :: Index), store jC idx (of_nat j :: Index))))
        (idx0, iRow, jCol)) =
   idx0 + of_nat (nat (sint m) * nat (sint n))"
proof (rule for_loop_invariant [where P = "\<lambda>i st. fst st = idx0 + of_nat (i * nat (sint n))"])
  show "fst (idx0, iRow, jCol) = idx0 + of_nat (0 * nat (sint n))" by simp
next
  fix i and s :: "Index \<times> Index list \<times> Index list"
  assume s: "fst s = idx0 + of_nat (i * nat (sint n))"
  have "fst (for_loop n (\<lambda>j (idx, iR, jC).
      (idx + 1, store iR idx (of_nat i :: Index), store jC idx (of_nat j :: Index))) s) =
      fst s + of_nat (nat (sint n))"
  proof (rule for_loop_invariant [where P = "\<lambda>j st. fst st = fst s + of_nat j"])
    show "fst s = fst s + of_nat 0" by simp
  next
    fix j and t :: "Index \<times> Index list \<times> Index list"
    assume "fst t = fst s + of_nat j"
    then show "fst (case t of (idx, iR, jC) \<Rightarrow>
      (idx + 1, store iR idx (of_nat i :: Index), store jC idx (of_nat j :: Index))) =
      fst s + of_nat (Suc j)"
      by (cases t) auto
  qed
  then show "fst (for_loop n (\<lambda>j (idx, iR, jC).
      (idx + 1, store iR idx (of_nat i :: Index), store jC idx (of_nat j :: Index))) s) =
      idx0 + of_nat (Suc i * nat (sint n))"
    using s by simp
qed

text \<open>The nested loops of the value phases keep \<^const>\<open>values_inv\<close>.\<close>

lemma values_inner:
  assumes inv: "values_inv L (nat (sint n)) h i 0 st"
    and i: "i < M" and count: "M * nat (sint n) < 2 ^ 31"
  shows "values_inv L (nat (sint n)) h (Suc i) 0
           (for_loop n (\<lambda>j (idx, v). (idx + 1, store v idx (h i j))) st)"
proof -
  let ?N = "nat (sint n)"
  let ?body = "\<lambda>j (idx, v). (idx + 1, store v idx (h i j))"
  have "values_inv L ?N h i ?N (for_loop n ?body st)"
  proof (rule for_loop_invariant [where P = "values_inv L ?N h i"])
    show "values_inv L ?N h i 0 st" by (rule inv)
  next
    fix j s assume j: "j < ?N" and s_inv: "values_inv L ?N h i j s"
    obtain idx v where s: "s = (idx, v)" by (cases s) auto
    from s_inv s have idx: "idx = of_nat (i * ?N + j)" and len: "length v = L"
      and old: "\<And>k. k < i * ?N + j \<Longrightarrow> k < L \<Longrightarrow> v ! k = h (k div ?N) (k mod ?N)"
      by (auto simp: values_inv_def)
    have pos: "i * ?N + j < 2 ^ 31"
      using row_below_count [OF i j] count by linarith
    have st: "store v idx w = v[i * ?N + j := w]" for w
      unfolding idx using pos by (rule store_of_nat)
    have next_idx: "idx + 1 = of_nat (i * ?N + Suc j)"
      unfolding idx by simp
    show "values_inv L ?N h i (Suc j) (?body j s)"
      unfolding s values_inv_def
      using j len old by (auto simp: st next_idx nth_list_update less_Suc_eq)
  qed
  then show ?thesis
    by (auto simp: values_inv_def)
qed

lemma values_loops:
  assumes "length vals = L"
    and count: "nat (sint m) * nat (sint n) < 2 ^ 31"
  shows "values_inv L (nat (sint n)) h (nat (sint m)) 0
     (for_loop m (\<lambda>i. for_loop n (\<lambda>j (idx, v). (idx + 1, store v idx (h i j)))) (0, vals))"
proof (rule for_loop_invariant [where P = "\<lambda>i. values_inv L (nat (sint n)) h i 0"])
  show "values_inv L (nat (sint n)) h 0 0 (0, vals)"
    using assms(1) by (simp add: values_inv_def)
next
  fix i s assume i: "i < nat (sint m)" and inv: "values_inv L (nat (sint n)) h i 0 s"
  show "values_inv L (nat (sint n)) h (Suc i) 0
    (for_loop n (\<lambda>j (idx, v). (idx + 1, store v idx (h i j))) s)"
    using inv i count by (rule values_inner)
qed

section \<open>Properties of the callbacks\<close>

text \<open>The two phases of the Jacobian query.\<close>

lemma eval_jac_g_structure:
  assumes "size_agrees (fn_n (pb_function (problem solver))) n"
    and "size_agrees (length (constraints (problem solver))) m"
    and "length iRow = L" and "length jCol = L"
    and count: "nat (sint m) * nat (sint n) < 2 ^ 31"
  shows "\<exists>iRow' jCol'.
     eval_jac_g solver n x new_x m nele_jac iRow jCol None = Inr (True, iRow', jCol', None) \<and>
     length iRow' = L \<and> length jCol' = L \<and>
     (\<forall>k. k < nat (sint m) * nat (sint n) \<longrightarrow> k < L \<longrightarrow>
        iRow' ! k = of_nat (k div nat (sint n)) \<and> jCol' ! k = of_nat (k mod nat (sint n)))"
proof -
  define st where "st = for_loop m (\<lambda>i. for_loop n (\<lambda>j (idx, iR, jC).
     (idx + 1, store iR idx (of_nat i :: Index), store jC idx (of_nat j :: Index))))
       (0, iRow, jCol)"
  obtain idx iRow' jCol' where st: "st = (idx, iRow', jCol')"
    by (cases st) auto
  have inv: "structure_inv L (nat (sint n)) (nat (sint m)) 0 st"
    unfolding st_def using assms(3,4) count by (rule structure_loops)
  have call: "eval_jac_g solver n x new_x m nele_jac iRow jCol None =
      (case st of (idx, iRow', jCol') \<Rightarrow> Inr (True, iRow', jCol', None))"
    using assms(1,2) unfolding eval_jac_g_def st_def by simp
  show ?thesis
    using inv unfolding call st structure_inv_def by simp
qed

lemma eval_jac_g_values:
  assumes "size_agrees (fn_n (pb_function (problem solver))) n"
    and "size_agrees (length (constraints (problem solver))) m"
    and "length vals = L"
    and count: "nat (sint m) * nat (sint n) < 2 ^ 31"
  shows "\<exists>vals'.
     eval_jac_g solver n x new_x m nele_jac iRow jCol (Some vals) =
       Inr (True, iRow, jCol, Some vals') \<and>
     length vals' = L \<and>
     (\<forall>k. k < nat (sint m) * nat (sint n) \<longrightarrow> k < L \<longrightarrow>
        vals' ! k = jacobian_from_gradients (constraints (problem solver))
           (array_to_vector (vector_t (nat (sint n))) x) (k div nat (sint n)) (k mod nat (sint n)))"
proof -
  define jac where "jac = jacobian_from_gradients (constraints (problem solver))
           (array_to_vector (vector_t (nat (sint n))) x)"
  define st where "st = for_loop m (\<lambda>i. for_loop n (\<lambda>j (idx, v).
     (idx + 1, store v idx (jac i j)))) (0, vals)"
  obtain idx vals' where st: "st = (idx, vals')"
    by (cases st) auto
  have inv: "values_inv L (nat (sint n)) jac (nat (sint m)) 0 st"
    unfolding st_def using assms(3) count by (rule values_loops)
  have call: "eval_jac_g solver n x new_x m nele_jac iRow jCol (Some vals) =
      (case st of (idx, vals') \<Rightarrow> Inr (True, iRow, jCol, Some vals'))"
    using assms(1,2) unfolding eval_jac_g_def st_def jac_def by (simp add: Let_def)
  show ?thesis
    using inv unfolding call st values_inv_def jac_def [symmetric] by simp
qed

lemma jacobian_phases_aligned:
  fixes solver :: "'a::zero IpoptSolver"
  assumes n: "size_agrees (fn_n (pb_function (problem solver))) n"
    and m: "size_agrees (length (constraints (problem solver))) m"
    and iRow: "length iRow = nat (sint m) * nat (sint n)"
    and jCol: "length jCol = nat (sint m) * nat (sint n)"
    and vals: "length vals = nat (sint m) * nat (sint n)"
    and nele_jac: "sint nele_jac = int (nat (sint m) * nat (sint n))"
  shows "\<exists>iRow' jCol' vals'.
     eval_jac_g solver n x new_x m nele_jac iRow jCol None = Inr (True, iRow', jCol', None) \<and>
     eval_jac_g solver n x new_x' m nele_jac iRow_v jCol_v (Some vals) =
       Inr (True, iRow_v, jCol_v, Some vals') \<and>
     length iRow' = nat (sint m) * nat (sint n) \<and>
     length jCol' = nat (sint m) * nat (sint n) \<and>
     length vals' = nat (sint m) * nat (sint n) \<and>
     (\<forall>k. k < nat (sint m) * nat (sint n) \<longrightarrow>
        iRow' ! k = of_nat (k div nat (sint n)) \<and>
        jCol' ! k = of_nat (k mod nat (sint n)) \<and>
        vals' ! k =
          jacobian_from_gradients (constraints (problem solver))
            (array_to_vector (vector_t (nat (sint n))) x)
            (nat (sint (iRow' ! k))) (nat (sint (jCol' ! k))))"
proof -
  let ?N = "nat (sint n)" and ?M = "nat (sint m)"
  have count: "?M * ?N < 2 ^ 31"
    using nele_jac by (rule Index_count)
  obtain iRow' jCol' where s:
    "eval_jac_g solver n x new_x m nele_jac iRow jCol None = Inr (True, iRow', jCol', None)"
    "length iRow' = ?M * ?N" "length jCol' = ?M * ?N"
    "\<And>k. k < ?M * ?N \<Longrightarrow> iRow' ! k = of_nat (k div ?N) \<and> jCol' ! k = of_nat (k mod ?N)"
    using eval_jac_g_structure [OF n m iRow jCol count, of x new_x nele_jac] by auto
  obtain vals' where v:
    "eval_jac_g solver n x new_x' m nele_jac iRow_v jCol_v (Some vals) =
       Inr (True, iRow_v, jCol_v, Some vals')"
    "length vals' = ?M * ?N"
    "\<And>k. k < ?M * ?N \<Longrightarrow> vals' ! k =
       jacobian_from_gradients (constraints (problem solver))
         (array_to_vector (vector_t ?N) x) (k div ?N) (k mod ?N)"
    using eval_jac_g_values [OF n m vals count, of x new_x' nele_jac iRow_v jCol_v] by auto
  have "vals' ! k =
          jacobian_from_gradients (constraints (problem solver))
            (array_to_vector (vector_t ?N) x)
            (nat (sint (iRow' ! k))) (nat (sint (jCol' ! k)))" if k: "k < ?M * ?N" for k
    using s(4) [OF k] v(3) [OF k] Index_of_row [OF k] Index_of_column [OF k] by simp
  then show ?thesis
    using s v by auto
qed

text \<open>
  The loop of \<^const>\<open>compute_hessian\<close>, entry by entry: a sum from the left, which over
  numbers whose addition is associative and commutative is the usual sum.
\<close>

lemma compute_hessian_loop_entry:
  "i + length cs \<le> 2 ^ 31 \<Longrightarrow>
   compute_hessian_loop cs x lambda (of_nat i) h r c =
     foldl (+) (h r c)
       (map (\<lambda>k. lambda ! (i + k) * fn_hessian (cs ! k) x 0 r c) [0..<length cs])"
proof (induction cs arbitrary: i h)
  case Nil
  show ?case by simp
next
  case (Cons it rest)
  have upt: "[0..<length (it # rest)] = 0 # map Suc [0..<length rest]"
    by (simp add: upt_conv_Cons map_Suc_upt del: upt_Suc)
  have i: "i < 2 ^ 31" and rest: "Suc i + length rest \<le> 2 ^ 31"
    using Cons.prems by simp_all
  have step: "compute_hessian_loop (it # rest) x lambda (of_nat i) h =
      compute_hessian_loop rest x lambda (of_nat (Suc i))
        (matrix_plus h (scalar_times (lambda ! i) (fn_hessian it x 0)))"
    using load_of_nat [OF i, of lambda] by (simp add: add.commute)
  show ?case
    unfolding upt step Cons.IH [OF rest]
    by (simp add: matrix_plus_def scalar_times_def o_def)
qed

lemma compute_hessian_entry:
  assumes "size_agrees (length (constraints (problem solver))) m"
  shows "compute_hessian solver x obj_factor lambda r c =
     foldl (+) (obj_factor * fn_hessian (pb_function (problem solver)) x 0 r c)
       (map (\<lambda>i. lambda ! i * fn_hessian (constraints (problem solver) ! i) x 0 r c)
          [0..<nat (sint m)])"
proof -
  have M: "nat (sint m) = length (constraints (problem solver))"
    using assms by (rule size_agrees_nat)
  have "0 + length (constraints (problem solver)) \<le> 2 ^ 31"
    using nat_sint_Index_less [of m] by (simp add: M)
  from compute_hessian_loop_entry [OF this]
  show ?thesis
    by (simp add: compute_hessian_def Let_def scalar_times_def M)
qed

lemma foldl_plus_sum:
  fixes f :: "nat \<Rightarrow> 'a::comm_monoid_add"
  shows "foldl (+) a (map f [0..<m]) = a + (\<Sum>i<m. f i)"
  by (induction m) (simp_all add: add.assoc)

lemma compute_hessian_sum:
  fixes solver :: "'a::{comm_monoid_add,times} IpoptSolver"
  assumes "size_agrees (length (constraints (problem solver))) m"
  shows "compute_hessian solver x obj_factor lambda r c =
     obj_factor * fn_hessian (pb_function (problem solver)) x 0 r c +
     (\<Sum>i<nat (sint m). lambda ! i * fn_hessian (constraints (problem solver) ! i) x 0 r c)"
  by (simp add: compute_hessian_entry [OF assms] foldl_plus_sum)

text \<open>The two phases of the Hessian query.\<close>

lemma eval_h_structure:
  assumes "size_agrees (fn_n (pb_function (problem solver))) n"
    and "size_agrees (length (constraints (problem solver))) m"
    and "length iRow = L" and "length jCol = L"
    and nele: "sint nele_hess = int (nat (sint n) * nat (sint n))"
  shows "\<exists>iRow' jCol'.
     eval_h solver n x new_x obj_factor m lambda new_lambda nele_hess iRow jCol None =
       Inr (True, iRow', jCol', None) \<and>
     length iRow' = L \<and> length jCol' = L \<and>
     (\<forall>k. k < nat (sint n) * nat (sint n) \<longrightarrow> k < L \<longrightarrow>
        iRow' ! k = of_nat (k div nat (sint n)) \<and> jCol' ! k = of_nat (k mod nat (sint n)))"
proof -
  define st where "st = for_loop n (\<lambda>i. for_loop n (\<lambda>j (idx, iR, jC).
     (idx + 1, store iR idx (of_nat i :: Index), store jC idx (of_nat j :: Index))))
       (0, iRow, jCol)"
  obtain idx iRow' jCol' where st: "st = (idx, iRow', jCol')"
    by (cases st) auto
  have count: "nat (sint n) * nat (sint n) < 2 ^ 31"
    using nele by (rule Index_count)
  have inv: "structure_inv L (nat (sint n)) (nat (sint n)) 0 st"
    unfolding st_def using assms(3,4) count by (rule structure_loops)
  have "idx = of_nat (nat (sint n) * nat (sint n))"
    using inv unfolding st structure_inv_def by simp
  then have idx: "idx = nele_hess"
    using Index_count(2) [OF nele] by simp
  have call: "eval_h solver n x new_x obj_factor m lambda new_lambda nele_hess iRow jCol None =
      (case st of (idx, iRow', jCol') \<Rightarrow>
         if \<not> (idx = nele_hess) then Inl AssertionFailed
         else Inr (True, iRow', jCol', None))"
    using assms(1,2) unfolding eval_h_def st_def by simp
  show ?thesis
    using inv idx unfolding call st structure_inv_def by simp
qed

lemma eval_h_values:
  assumes "size_agrees (fn_n (pb_function (problem solver))) n"
    and "size_agrees (length (constraints (problem solver))) m"
    and "length vals = L"
    and count: "nat (sint n) * nat (sint n) < 2 ^ 31"
  shows "\<exists>vals'.
     eval_h solver n x new_x obj_factor m lambda new_lambda nele_hess iRow jCol (Some vals) =
       Inr (True, iRow, jCol, Some vals') \<and>
     length vals' = L \<and>
     (\<forall>k. k < nat (sint n) * nat (sint n) \<longrightarrow> k < L \<longrightarrow>
        vals' ! k = compute_hessian solver (array_to_vector (vector_t (nat (sint n))) x)
           obj_factor lambda (k div nat (sint n)) (k mod nat (sint n)))"
proof -
  define h where "h = compute_hessian solver (array_to_vector (vector_t (nat (sint n))) x)
           obj_factor lambda"
  define st where "st = for_loop n (\<lambda>i. for_loop n (\<lambda>j (idx, v).
     (idx + 1, store v idx (h i j)))) (0, vals)"
  obtain idx vals' where st: "st = (idx, vals')"
    by (cases st) auto
  have inv: "values_inv L (nat (sint n)) h (nat (sint n)) 0 st"
    unfolding st_def using assms(3) count by (rule values_loops)
  have call: "eval_h solver n x new_x obj_factor m lambda new_lambda nele_hess iRow jCol (Some vals) =
      (case st of (idx, vals') \<Rightarrow> Inr (True, iRow, jCol, Some vals'))"
    using assms(1,2) unfolding eval_h_def st_def h_def by (simp add: Let_def)
  show ?thesis
    using inv unfolding call st values_inv_def h_def [symmetric] by simp
qed

lemma hessian_phases_aligned:
  fixes solver :: "'a::{zero,plus,times} IpoptSolver"
  assumes n: "size_agrees (fn_n (pb_function (problem solver))) n"
    and m: "size_agrees (length (constraints (problem solver))) m"
    and nele: "sint nele_hess = int (nat (sint n) * nat (sint n))"
    and iRow: "length iRow = nat (sint n) * nat (sint n)"
    and jCol: "length jCol = nat (sint n) * nat (sint n)"
    and vals: "length vals = nat (sint n) * nat (sint n)"
  shows "\<exists>iRow' jCol' vals'.
     eval_h solver n x new_x obj_factor m lambda new_lambda nele_hess iRow jCol None =
       Inr (True, iRow', jCol', None) \<and>
     eval_h solver n x new_x' obj_factor m lambda new_lambda' nele_hess iRow_v jCol_v (Some vals) =
       Inr (True, iRow_v, jCol_v, Some vals') \<and>
     length iRow' = nat (sint n) * nat (sint n) \<and>
     length jCol' = nat (sint n) * nat (sint n) \<and>
     length vals' = nat (sint n) * nat (sint n) \<and>
     (\<forall>k. k < nat (sint n) * nat (sint n) \<longrightarrow>
        iRow' ! k = of_nat (k div nat (sint n)) \<and>
        jCol' ! k = of_nat (k mod nat (sint n)) \<and>
        vals' ! k =
          compute_hessian solver (array_to_vector (vector_t (nat (sint n))) x) obj_factor lambda
            (nat (sint (iRow' ! k))) (nat (sint (jCol' ! k))))"
proof -
  let ?N = "nat (sint n)"
  have count: "?N * ?N < 2 ^ 31"
    using nele by (rule Index_count)
  obtain iRow' jCol' where s:
    "eval_h solver n x new_x obj_factor m lambda new_lambda nele_hess iRow jCol None =
       Inr (True, iRow', jCol', None)"
    "length iRow' = ?N * ?N" "length jCol' = ?N * ?N"
    "\<And>k. k < ?N * ?N \<Longrightarrow> iRow' ! k = of_nat (k div ?N) \<and> jCol' ! k = of_nat (k mod ?N)"
    using eval_h_structure [OF n m iRow jCol nele, of x new_x obj_factor lambda new_lambda]
    by auto
  obtain vals' where v:
    "eval_h solver n x new_x' obj_factor m lambda new_lambda' nele_hess iRow_v jCol_v (Some vals) =
       Inr (True, iRow_v, jCol_v, Some vals')"
    "length vals' = ?N * ?N"
    "\<And>k. k < ?N * ?N \<Longrightarrow> vals' ! k =
       compute_hessian solver (array_to_vector (vector_t ?N) x) obj_factor lambda
         (k div ?N) (k mod ?N)"
    using eval_h_values [OF n m vals count, of x new_x' obj_factor lambda new_lambda' nele_hess
        iRow_v jCol_v]
    by auto
  have "vals' ! k =
          compute_hessian solver (array_to_vector (vector_t ?N) x) obj_factor lambda
            (nat (sint (iRow' ! k))) (nat (sint (jCol' ! k)))" if k: "k < ?N * ?N" for k
    using s(4) [OF k] v(3) [OF k] Index_of_row [OF k] Index_of_column [OF k] by simp
  then show ?thesis
    using s v by auto
qed

text \<open>The copies between buffers and vectors, and the loop of \<^const>\<open>eval_g\<close>.\<close>

lemma array_to_vector_same_length:
  "length src = sz \<Longrightarrow> array_to_vector (vector_t sz) src = src"
  by (auto simp: array_to_vector_def vector_t_def intro: nth_equalityI)

lemma eval_g_loop_fills:
  "i + length cs \<le> length g_v \<Longrightarrow> i + length cs \<le> 2 ^ 31 \<Longrightarrow>
   eval_g_loop cs x_v (of_nat i) g_v =
     take i g_v @ map (\<lambda>c. fn_apply c x_v ! 0) cs @ drop (i + length cs) g_v"
proof (induction cs arbitrary: i g_v)
  case Nil
  then show ?case by simp
next
  case (Cons it rest)
  have i: "i < length g_v" "i < 2 ^ 31" using Cons.prems by simp_all
  have step: "eval_g_loop (it # rest) x_v (of_nat i) g_v =
      eval_g_loop rest x_v (of_nat (Suc i)) (g_v[i := fn_apply it x_v ! 0])"
    using store_of_nat [OF i(2), of g_v] by (simp add: add.commute)
  have "eval_g_loop (it # rest) x_v (of_nat i) g_v =
      take (Suc i) (g_v[i := fn_apply it x_v ! 0]) @ map (\<lambda>c. fn_apply c x_v ! 0) rest @
      drop (Suc i + length rest) (g_v[i := fn_apply it x_v ! 0])"
    unfolding step using Cons.prems by (subst Cons.IH) simp_all
  also have "take (Suc i) (g_v[i := fn_apply it x_v ! 0]) = take i g_v @ [fn_apply it x_v ! 0]"
    using i by (simp add: take_Suc_conv_app_nth)
  finally show ?case by simp
qed

text \<open>
  The overload that the linearity queries select, and what they write: every tag is
  \<^verbatim>\<open>NON_LINEAR\<close>, whatever class the objective and the constraints were declared with.
\<close>

lemma cfsqp_tag_problem_static_class: "cfsqp_tag problem_static_class f = NON_LINEAR"
  by (simp add: problem_static_class_def)

lemma linearity_queries_non_linear:
  assumes n: "size_agrees (fn_n (pb_function (problem solver))) n"
    and m: "size_agrees (length (constraints (problem solver))) m"
    and var_types: "length var_types = nat (sint n)"
    and const_types: "length const_types = nat (sint m)"
  shows "get_variables_linearity solver n var_types =
       Inr (True, replicate (nat (sint n)) NON_LINEAR)"
    and "get_function_linearity solver m const_types =
       Inr (True, replicate (nat (sint m)) NON_LINEAR)"
proof -
  have fill: "for_loop k (\<lambda>i b. b[i := NON_LINEAR]) buf = replicate (nat (sint k)) NON_LINEAR"
    if "length buf = nat (sint k)" for k and buf :: "LinearityType list"
    using for_loop_fill [of k NON_LINEAR buf] that
    by (auto intro: nth_equalityI)
  show "get_variables_linearity solver n var_types =
       Inr (True, replicate (nat (sint n)) NON_LINEAR)"
    using n by (simp add: get_variables_linearity_def cfsqp_tag_problem_static_class
        fill [OF var_types])
  show "get_function_linearity solver m const_types =
       Inr (True, replicate (nat (sint m)) NON_LINEAR)"
    using m by (simp add: get_function_linearity_def cfsqp_tag_problem_static_class
        fill [OF const_types])
qed

text \<open>The flag that the two-phase queries return.\<close>

lemma returned_eval_jac_g:
  "returned (eval_jac_g solver n x new_x m nele_jac iRow jCol values) =
     (if size_agrees (fn_n (pb_function (problem solver))) n \<and>
         size_agrees (length (constraints (problem solver))) m
      then Some True else None)"
  by (cases "values")
    (simp_all add: eval_jac_g_def returned_def Let_def case_prod_beta)

lemma returned_eval_h:
  "returned (eval_h solver n x new_x obj_factor m lambda new_lambda nele_hess iRow jCol values) =
     (if size_agrees (fn_n (pb_function (problem solver))) n \<and>
         size_agrees (length (constraints (problem solver))) m \<and>
         (values = None \<longrightarrow> of_nat (nat (sint n) * nat (sint n)) = nele_hess)
      then Some True else None)"
proof (cases "values")
  case None
  show ?thesis
    using structure_loops_idx [of n n 0 iRow jCol]
    by (simp add: None eval_h_def returned_def Let_def case_prod_beta)
next
  case (Some vals)
  show ?thesis
    by (simp add: Some eval_h_def returned_def Let_def case_prod_beta)
qed

text \<open>
  What the two result-bearing branches of \<^const>\<open>finalize_switch\<close> store when the engine
  hands buffers of \<open>n\<close> and \<open>m\<close> cells: the success branch stores the multipliers, the
  acceptable-point branch an empty \<^verbatim>\<open>lambda\<close>.
\<close>

lemma finalize_success_payload:
  fixes solver :: "'a::zero IpoptSolver"
  assumes "length x = nat (sint n)" and "length lambda = nat (sint m)"
  shows "finalize_switch SUCCESS solver n x m lambda obj_value =
     Inr (solver\<lparr>result_slot := IsResult
       \<lparr>res_x = x, res_value = [obj_value], res_lambda = lambda\<rparr>\<rparr>)"
proof -
  have x: "array_to_vector (vector_t (nat (sint n))) x = x"
    using assms(1) by (rule array_to_vector_same_length)
  have l: "array_to_vector (vector_t (nat (sint m))) lambda = lambda"
    using assms(2) by (rule array_to_vector_same_length)
  show ?thesis
    by (simp add: finalize_success_def Result_new_def resize_def x l)
      (simp add: vector_t_def)
qed

lemma finalize_acceptable_payload:
  fixes solver :: "'a::zero IpoptSolver"
  assumes "length x = nat (sint n)"
  shows "finalize_switch STOP_AT_ACCEPTABLE_POINT solver n x m lambda obj_value =
     Inr (solver\<lparr>result_slot := IsResultWithWarnings
       \<lparr>res_x = x, res_value = [obj_value], res_lambda = [],
        warnings = [''Acceptable point.'']\<rparr>\<rparr>)"
proof -
  have x: "array_to_vector (vector_t (nat (sint n))) x = x"
    using assms(1) by (rule array_to_vector_same_length)
  have l: "array_to_vector [] lambda = []"
    by (simp add: array_to_vector_def)
  show ?thesis
    by (simp add: ResultWithWarnings_new_def x l) (simp add: vector_t_def)
qed

section \<open>The claims\<close>

text \<open>
  C1. For every point \<open>x\<close>, objective factor \<open>a\<close> and multiplier buffer \<open>lambda\<close>, when \<open>m\<close> is
  the number of constraints of the problem, every entry of the assembled Lagrangian
  Hessian is the sum, taken from the left, that starts with \<open>a\<close> times the entry of the
  objective's Hessian at \<open>x\<close> and then adds, for the constraints \<open>i = 0, ..., m - 1\<close> in
  declared order, \<open>lambda[i]\<close> times the entry of the Hessian of constraint \<open>i\<close> at \<open>x\<close>. No
  law of the arithmetic is used, so the order of the accumulation is the one stated. The
  value phase of the Hessian query, called with the sizes of the problem, a point of \<open>n\<close>
  cells and a buffer of the dense count \<open>n * n\<close>, writes these entries row by row.
\<close>

theorem lagrangian_hessian_accumulation:
  fixes solver :: "'a::{zero,plus,times} IpoptSolver"
  shows "(size_agrees (length (constraints (problem solver))) m \<longrightarrow>
      compute_hessian solver x obj_factor lambda r c =
        foldl (+) (obj_factor * fn_hessian (pb_function (problem solver)) x 0 r c)
          (map (\<lambda>i. lambda ! i * fn_hessian (constraints (problem solver) ! i) x 0 r c)
             [0..<nat (sint m)])) \<and>
     (size_agrees (fn_n (pb_function (problem solver))) n \<and>
      size_agrees (length (constraints (problem solver))) m \<and>
      length x = nat (sint n) \<and> length vals = nat (sint n) * nat (sint n) \<and>
      sint nele_hess = int (nat (sint n) * nat (sint n)) \<longrightarrow>
      (\<exists>vals'.
         eval_h solver n x new_x obj_factor m lambda new_lambda nele_hess iRow jCol (Some vals) =
           Inr (True, iRow, jCol, Some vals') \<and>
         length vals' = nat (sint n) * nat (sint n) \<and>
         (\<forall>r c. r < nat (sint n) \<and> c < nat (sint n) \<longrightarrow>
            vals' ! (r * nat (sint n) + c) =
              foldl (+) (obj_factor * fn_hessian (pb_function (problem solver)) x 0 r c)
                (map (\<lambda>i. lambda ! i * fn_hessian (constraints (problem solver) ! i) x 0 r c)
                   [0..<nat (sint m)]))))"
proof (intro conjI impI)
  assume "size_agrees (length (constraints (problem solver))) m"
  then show "compute_hessian solver x obj_factor lambda r c =
       foldl (+) (obj_factor * fn_hessian (pb_function (problem solver)) x 0 r c)
         (map (\<lambda>i. lambda ! i * fn_hessian (constraints (problem solver) ! i) x 0 r c)
            [0..<nat (sint m)])"
    by (rule compute_hessian_entry)
next
  let ?N = "nat (sint n)"
  assume a: "size_agrees (fn_n (pb_function (problem solver))) n \<and>
      size_agrees (length (constraints (problem solver))) m \<and>
      length x = ?N \<and> length vals = ?N * ?N \<and> sint nele_hess = int (?N * ?N)"
  then have n: "size_agrees (fn_n (pb_function (problem solver))) n"
    and m: "size_agrees (length (constraints (problem solver))) m"
    and x: "length x = ?N" and vals: "length vals = ?N * ?N"
    and nele: "sint nele_hess = int (?N * ?N)"
    by simp_all
  have count: "?N * ?N < 2 ^ 31"
    using nele by (rule Index_count)
  have x_v: "array_to_vector (vector_t ?N) x = x"
    using x by (rule array_to_vector_same_length)
  obtain vals' where v:
    "eval_h solver n x new_x obj_factor m lambda new_lambda nele_hess iRow jCol (Some vals) =
       Inr (True, iRow, jCol, Some vals')"
    "length vals' = ?N * ?N"
    "\<And>k. k < ?N * ?N \<Longrightarrow> vals' ! k =
       compute_hessian solver x obj_factor lambda (k div ?N) (k mod ?N)"
    using eval_h_values [OF n m vals count, of x new_x obj_factor lambda new_lambda nele_hess
        iRow jCol]
    by (auto simp: x_v)
  have "vals' ! (r * ?N + c) =
      foldl (+) (obj_factor * fn_hessian (pb_function (problem solver)) x 0 r c)
        (map (\<lambda>i. lambda ! i * fn_hessian (constraints (problem solver) ! i) x 0 r c)
           [0..<nat (sint m)])" if r: "r < ?N" and c: "c < ?N" for r c
    using v(3) [OF row_below_count [OF r c]] c by (simp add: compute_hessian_entry [OF m])
  then show "\<exists>vals'.
         eval_h solver n x new_x obj_factor m lambda new_lambda nele_hess iRow jCol (Some vals) =
           Inr (True, iRow, jCol, Some vals') \<and>
         length vals' = ?N * ?N \<and>
         (\<forall>r c. r < ?N \<and> c < ?N \<longrightarrow>
            vals' ! (r * ?N + c) =
              foldl (+) (obj_factor * fn_hessian (pb_function (problem solver)) x 0 r c)
                (map (\<lambda>i. lambda ! i * fn_hessian (constraints (problem solver) ! i) x 0 r c)
                   [0..<nat (sint m)]))"
    using v(1,2) by blast
qed

theorem lagrangian_hessian_accumulation_witness:
  "compute_hessian example_solver [3, 4] 3 [5, 7] 0 0 = 6 \<and>
   compute_hessian example_solver [3, 4] 3 [5, 7] 0 1 = 7 \<and>
   (\<exists>vals'. eval_h example_solver 2 [3, 4] True 3 2 [5, 7] True 4 [] [] (Some [0, 0, 0, 0]) =
      Inr (True, [], [], Some vals') \<and> vals' ! 1 = 7)"
proof -
  have m: "size_agrees (length (constraints (problem example_solver))) 2"
    by (simp add: example_defs size_agrees_def)
  have h: "size_agrees (fn_n (pb_function (problem example_solver))) 2 \<and>
      size_agrees (length (constraints (problem example_solver))) 2 \<and>
      length [3, 4 :: real] = nat (sint (2 :: Index)) \<and>
      length [0, 0, 0, 0 :: real] = nat (sint (2 :: Index)) * nat (sint (2 :: Index)) \<and>
      sint (4 :: Index) = int (nat (sint (2 :: Index)) * nat (sint (2 :: Index)))"
    by (simp add: example_defs size_agrees_def)
  have e: "fn_hessian (pb_function (problem example_solver)) x 0 r c = (if r = c then 2 else 0)"
    "fn_hessian (constraints (problem example_solver) ! 0) x 0 r c = 0"
    "fn_hessian (constraints (problem example_solver) ! Suc 0) x 0 r c = (if r = c then 0 else 1)"
    for x r c
    by (simp_all add: example_defs)
  have upt2: "[0..<nat (sint (2 :: Index))] = [0, 1]" by (simp add: upt_rec)
  note t0 = lagrangian_hessian_accumulation [of example_solver 2 "[3, 4]" 3 "[5, 7]" 0 0 2
      "[0, 0, 0, 0]" 4 True True "[]" "[]"]
  note t1 = lagrangian_hessian_accumulation [of example_solver 2 "[3, 4]" 3 "[5, 7]" 0 1 2
      "[0, 0, 0, 0]" 4 True True "[]" "[]"]
  from t1 [THEN conjunct2, rule_format, OF h] obtain vals' where v:
    "eval_h example_solver 2 [3, 4] True 3 2 [5, 7] True 4 [] [] (Some [0, 0, 0, 0]) =
      Inr (True, [], [], Some vals')"
    "\<And>r c. r < nat (sint (2 :: Index)) \<and> c < nat (sint (2 :: Index)) \<Longrightarrow>
       vals' ! (r * nat (sint (2 :: Index)) + c) =
       foldl (+) (3 * fn_hessian (pb_function (problem example_solver)) [3, 4] 0 r c)
         (map (\<lambda>i. [5, 7] ! i * fn_hessian (constraints (problem example_solver) ! i) [3, 4] 0 r c)
            [0..<nat (sint (2 :: Index))])"
    by blast
  have "vals' ! 1 = 7"
    using v(2) [of 0 1] unfolding upt2 by (simp add: e)
  moreover have "compute_hessian example_solver [3, 4] 3 [5, 7] 0 0 = 6"
    using t0 [THEN conjunct1, rule_format, OF m] unfolding upt2 by (simp add: e)
  moreover have "compute_hessian example_solver [3, 4] 3 [5, 7] 0 1 = 7"
    using t1 [THEN conjunct1, rule_format, OF m] unfolding upt2 by (simp add: e)
  ultimately show ?thesis using v(1) by simp
qed

text \<open>
  C2, as amended. For every engine termination code other than \<^verbatim>\<open>USER_REQUESTED_STOP\<close>
  the outcome translator stores exactly the variant that the outcome table gives for the
  code, and the table gives one for each of them; \<^verbatim>\<open>MAXITER_EXCEEDED\<close> stores the error
  \<^verbatim>\<open>"Max iteration exceeded."\<close>, which carries no primal point. On \<^verbatim>\<open>USER_REQUESTED_STOP\<close>
  the translator fails its assertion and stores nothing.
\<close>

theorem finalize_solution_outcome_table:
  fixes solver :: "'a::zero IpoptSolver"
  assumes n: "size_agrees (fn_n (pb_function (problem solver))) n"
    and m: "size_agrees (length (constraints (problem solver))) m"
  shows "if status = USER_REQUESTED_STOP
     then finalize_solution solver status n x z_L z_U m g lambda obj_value = Inl AssertionFailed
     else \<exists>solver'.
            finalize_solution solver status n x z_L z_U m g lambda obj_value = Inr solver' \<and>
            problem solver' = problem solver \<and>
            outcome_of (result_slot solver') = outcome_table status \<and>
            outcome_table status \<noteq> None \<and>
            (status = MAXITER_EXCEEDED \<longrightarrow>
               result_slot solver' = SolverError ''Max iteration exceeded.'')"
  using n m
  by (cases status) (simp_all add: finalize_solution_def finalize_success_def Let_def)

theorem finalize_solution_outcome_table_witness:
  "finalize_solution example_solver MAXITER_EXCEEDED 2 [1 / 2, 1 / 2] [0, 0] [0, 0] 2 [1, 1 / 4]
     [1, 0] (1 / 2) = Inr (example_solver\<lparr>result_slot := SolverError ''Max iteration exceeded.''\<rparr>)"
proof -
  have h: "size_agrees (fn_n (pb_function (problem example_solver))) 2"
    "size_agrees (length (constraints (problem example_solver))) 2"
    by (simp_all add: example_defs size_agrees_def)
  show ?thesis
    using finalize_solution_outcome_table [OF h, of MAXITER_EXCEEDED "[1 / 2, 1 / 2]" "[0, 0]"
        "[0, 0]" "[1, 1 / 4]" "[1, 0]" "1 / 2"]
    by (simp add: finalize_solution_def h)
qed

text \<open>
  C2 as stated fails on the code \<^verbatim>\<open>USER_REQUESTED_STOP\<close>: no result variant is produced.
\<close>

theorem finalize_solution_user_stop_counterexample:
  "finalize_solution example_solver USER_REQUESTED_STOP 2 [1 / 2, 1 / 2] [0, 0] [0, 0] 2 [1, 1 / 4]
     [1, 0] (1 / 2) = Inl AssertionFailed"
  by (simp add: finalize_solution_def example_defs size_agrees_def)

text \<open>
  C3. When the engine passes the sizes of the problem, the dense counts \<open>m * n\<close> and
  \<open>n * n\<close> as \<^verbatim>\<open>nele_jac\<close> and \<^verbatim>\<open>nele_hess\<close> and buffers of these counts, the structure phase
  of the Jacobian query emits the pairs \<open>(i, j)\<close> row-major over \<open>[0, m) \<times> [0, n)\<close>, that of
  the Hessian query over \<open>[0, n) \<times> [0, n)\<close>, and the value phase of the same query writes
  at every flat position \<open>k\<close> the entry of the matrix at the row and the column that the
  structure phase emitted at position \<open>k\<close>.
\<close>

theorem structure_phase_matches_value_phase:
  fixes solver :: "'a::{zero,plus,times} IpoptSolver"
  assumes n: "size_agrees (fn_n (pb_function (problem solver))) n"
    and m: "size_agrees (length (constraints (problem solver))) m"
    and iRow: "length iRow = nat (sint m) * nat (sint n)"
    and jCol: "length jCol = nat (sint m) * nat (sint n)"
    and vals: "length vals = nat (sint m) * nat (sint n)"
    and nele_jac: "sint nele_jac = int (nat (sint m) * nat (sint n))"
    and nele: "sint nele_hess = int (nat (sint n) * nat (sint n))"
    and hRow: "length hRow = nat (sint n) * nat (sint n)"
    and hCol: "length hCol = nat (sint n) * nat (sint n)"
    and hvals: "length hvals = nat (sint n) * nat (sint n)"
  shows "(\<exists>iRow' jCol' vals'.
     eval_jac_g solver n x new_x m nele_jac iRow jCol None = Inr (True, iRow', jCol', None) \<and>
     eval_jac_g solver n x new_x' m nele_jac iRow_v jCol_v (Some vals) =
       Inr (True, iRow_v, jCol_v, Some vals') \<and>
     length iRow' = nat (sint m) * nat (sint n) \<and>
     length jCol' = nat (sint m) * nat (sint n) \<and>
     length vals' = nat (sint m) * nat (sint n) \<and>
     (\<forall>k. k < nat (sint m) * nat (sint n) \<longrightarrow>
        iRow' ! k = of_nat (k div nat (sint n)) \<and>
        jCol' ! k = of_nat (k mod nat (sint n)) \<and>
        vals' ! k =
          jacobian_from_gradients (constraints (problem solver))
            (array_to_vector (vector_t (nat (sint n))) x)
            (nat (sint (iRow' ! k))) (nat (sint (jCol' ! k))))) \<and>
   (\<exists>hRow' hCol' hvals'.
     eval_h solver n x new_x obj_factor m lambda new_lambda nele_hess hRow hCol None =
       Inr (True, hRow', hCol', None) \<and>
     eval_h solver n x new_x' obj_factor m lambda new_lambda' nele_hess iRow_v jCol_v (Some hvals) =
       Inr (True, iRow_v, jCol_v, Some hvals') \<and>
     length hRow' = nat (sint n) * nat (sint n) \<and>
     length hCol' = nat (sint n) * nat (sint n) \<and>
     length hvals' = nat (sint n) * nat (sint n) \<and>
     (\<forall>k. k < nat (sint n) * nat (sint n) \<longrightarrow>
        hRow' ! k = of_nat (k div nat (sint n)) \<and>
        hCol' ! k = of_nat (k mod nat (sint n)) \<and>
        hvals' ! k =
          compute_hessian solver (array_to_vector (vector_t (nat (sint n))) x) obj_factor lambda
            (nat (sint (hRow' ! k))) (nat (sint (hCol' ! k)))))"
proof (rule conjI)
  show "\<exists>iRow' jCol' vals'.
     eval_jac_g solver n x new_x m nele_jac iRow jCol None = Inr (True, iRow', jCol', None) \<and>
     eval_jac_g solver n x new_x' m nele_jac iRow_v jCol_v (Some vals) =
       Inr (True, iRow_v, jCol_v, Some vals') \<and>
     length iRow' = nat (sint m) * nat (sint n) \<and>
     length jCol' = nat (sint m) * nat (sint n) \<and>
     length vals' = nat (sint m) * nat (sint n) \<and>
     (\<forall>k. k < nat (sint m) * nat (sint n) \<longrightarrow>
        iRow' ! k = of_nat (k div nat (sint n)) \<and>
        jCol' ! k = of_nat (k mod nat (sint n)) \<and>
        vals' ! k =
          jacobian_from_gradients (constraints (problem solver))
            (array_to_vector (vector_t (nat (sint n))) x)
            (nat (sint (iRow' ! k))) (nat (sint (jCol' ! k))))"
    using n m iRow jCol vals nele_jac by (rule jacobian_phases_aligned)
next
  show "\<exists>hRow' hCol' hvals'.
     eval_h solver n x new_x obj_factor m lambda new_lambda nele_hess hRow hCol None =
       Inr (True, hRow', hCol', None) \<and>
     eval_h solver n x new_x' obj_factor m lambda new_lambda' nele_hess iRow_v jCol_v (Some hvals) =
       Inr (True, iRow_v, jCol_v, Some hvals') \<and>
     length hRow' = nat (sint n) * nat (sint n) \<and>
     length hCol' = nat (sint n) * nat (sint n) \<and>
     length hvals' = nat (sint n) * nat (sint n) \<and>
     (\<forall>k. k < nat (sint n) * nat (sint n) \<longrightarrow>
        hRow' ! k = of_nat (k div nat (sint n)) \<and>
        hCol' ! k = of_nat (k mod nat (sint n)) \<and>
        hvals' ! k =
          compute_hessian solver (array_to_vector (vector_t (nat (sint n))) x) obj_factor lambda
            (nat (sint (hRow' ! k))) (nat (sint (hCol' ! k))))"
    using n m nele hRow hCol hvals by (rule hessian_phases_aligned)
qed

theorem structure_phase_matches_value_phase_witness:
  "(\<exists>iRow' jCol' vals'.
     eval_jac_g example_solver 2 [3, 4] True 2 4 [9, 9, 9, 9] [9, 9, 9, 9] None =
       Inr (True, iRow', jCol', None) \<and>
     eval_jac_g example_solver 2 [3, 4] True 2 4 [] [] (Some [0, 0, 0, 0]) =
       Inr (True, [], [], Some vals') \<and>
     iRow' ! 2 = 1 \<and> jCol' ! 2 = 0 \<and> vals' ! 2 = 4) \<and>
   (\<exists>hRow' hCol' hvals'.
     eval_h example_solver 2 [3, 4] True 3 2 [5, 7] True 4 [9, 9, 9, 9] [9, 9, 9, 9] None =
       Inr (True, hRow', hCol', None) \<and>
     eval_h example_solver 2 [3, 4] True 3 2 [5, 7] True 4 [] [] (Some [0, 0, 0, 0]) =
       Inr (True, [], [], Some hvals') \<and>
     hRow' ! 1 = 0 \<and> hCol' ! 1 = 1 \<and> hvals' ! 1 = 7)"
proof -
  have h: "size_agrees (fn_n (pb_function (problem example_solver))) 2"
    "size_agrees (length (constraints (problem example_solver))) 2"
    "length [9, 9, 9, 9 :: Index] = nat (sint (2 :: Index)) * nat (sint (2 :: Index))"
    "length [9, 9, 9, 9 :: Index] = nat (sint (2 :: Index)) * nat (sint (2 :: Index))"
    "length [0, 0, 0, 0 :: real] = nat (sint (2 :: Index)) * nat (sint (2 :: Index))"
    "sint (4 :: Index) = int (nat (sint (2 :: Index)) * nat (sint (2 :: Index)))"
    "sint (4 :: Index) = int (nat (sint (2 :: Index)) * nat (sint (2 :: Index)))"
    "length [9, 9, 9, 9 :: Index] = nat (sint (2 :: Index)) * nat (sint (2 :: Index))"
    "length [9, 9, 9, 9 :: Index] = nat (sint (2 :: Index)) * nat (sint (2 :: Index))"
    "length [0, 0, 0, 0 :: real] = nat (sint (2 :: Index)) * nat (sint (2 :: Index))"
    by (simp_all add: example_defs size_agrees_def)
  note aligned = structure_phase_matches_value_phase [OF h, of "[3, 4]" True True "[]" "[]" 3
      "[5, 7]" True True]
  have jac: "jacobian_from_gradients (constraints (problem example_solver))
      (array_to_vector (vector_t (nat (sint (2 :: Index)))) [3, 4]) (Suc 0) 0 = 4"
    by (simp add: jacobian_from_gradients_def array_to_vector_def vector_t_def example_defs upt_rec)
  have hes: "compute_hessian example_solver
      (array_to_vector (vector_t (nat (sint (2 :: Index)))) [3, 4]) 3 [5, 7] 0 (Suc 0) = 7"
    unfolding compute_hessian_entry [OF h(2)] by (simp add: example_defs upt_rec)
  from aligned [THEN conjunct1]
  obtain iRow' jCol' vals' where r:
    "eval_jac_g example_solver 2 [3, 4] True 2 4 [9, 9, 9, 9] [9, 9, 9, 9] None =
       Inr (True, iRow', jCol', None)"
    "eval_jac_g example_solver 2 [3, 4] True 2 4 [] [] (Some [0, 0, 0, 0]) =
       Inr (True, [], [], Some vals')"
    "\<And>k. k < nat (sint (2 :: Index)) * nat (sint (2 :: Index)) \<Longrightarrow>
        iRow' ! k = of_nat (k div nat (sint (2 :: Index))) \<and>
        jCol' ! k = of_nat (k mod nat (sint (2 :: Index))) \<and>
        vals' ! k =
          jacobian_from_gradients (constraints (problem example_solver))
            (array_to_vector (vector_t (nat (sint (2 :: Index)))) [3, 4])
            (nat (sint (iRow' ! k))) (nat (sint (jCol' ! k)))"
    by blast
  from aligned [THEN conjunct2]
  obtain hRow' hCol' hvals' where s:
    "eval_h example_solver 2 [3, 4] True 3 2 [5, 7] True 4 [9, 9, 9, 9] [9, 9, 9, 9] None =
       Inr (True, hRow', hCol', None)"
    "eval_h example_solver 2 [3, 4] True 3 2 [5, 7] True 4 [] [] (Some [0, 0, 0, 0]) =
       Inr (True, [], [], Some hvals')"
    "\<And>k. k < nat (sint (2 :: Index)) * nat (sint (2 :: Index)) \<Longrightarrow>
        hRow' ! k = of_nat (k div nat (sint (2 :: Index))) \<and>
        hCol' ! k = of_nat (k mod nat (sint (2 :: Index))) \<and>
        hvals' ! k =
          compute_hessian example_solver
            (array_to_vector (vector_t (nat (sint (2 :: Index)))) [3, 4]) 3 [5, 7]
            (nat (sint (hRow' ! k))) (nat (sint (hCol' ! k)))"
    by blast
  have "iRow' ! 2 = 1 \<and> jCol' ! 2 = 0 \<and> vals' ! 2 = 4"
    using r(3) [of 2] jac by simp
  moreover have "hRow' ! 1 = 0 \<and> hCol' ! 1 = 1 \<and> hvals' ! 1 = 7"
    using s(3) [of 1] hes by simp
  ultimately show ?thesis using r(1,2) s(1,2) by blast
qed

text \<open>
  C4. The problem-description query reports the dense counts: the Jacobian count is the
  product \<open>n * m\<close> and the Hessian count the product \<open>n * n\<close> of the reported numbers of
  variables and constraints, which are the problem's sizes as \<^verbatim>\<open>Index\<close> values; whenever
  a product of the problem's sizes is representable in \<^verbatim>\<open>Index\<close>, the reported count is
  exactly that product.
\<close>

theorem get_nlp_info_dense_counts:
  fixes solver :: "'a IpoptSolver"
  defines "N \<equiv> fn_n (pb_function (problem solver))"
    and "M \<equiv> length (constraints (problem solver))"
  shows "\<exists>n m nnz_jac_g nnz_h_lag.
           get_nlp_info solver = (True, n, m, nnz_jac_g, nnz_h_lag, C_STYLE) \<and>
           n = of_nat N \<and> m = of_nat M \<and>
           nnz_jac_g = n * m \<and> nnz_h_lag = n * n \<and>
           (N * M < 2 ^ 31 \<longrightarrow> sint nnz_jac_g = int N * int M) \<and>
           (N * N < 2 ^ 31 \<longrightarrow> sint nnz_h_lag = int N * int N)"
proof -
  have jac: "sint (of_nat N * of_nat M :: Index) = int N * int M" if "N * M < 2 ^ 31"
    using sint_of_nat_Index [OF that] by simp
  have hes: "sint (of_nat N * of_nat N :: Index) = int N * int N" if "N * N < 2 ^ 31"
    using sint_of_nat_Index [OF that] by simp
  show ?thesis
    using jac hes by (simp add: get_nlp_info_def N_def M_def Let_def)
qed

theorem get_nlp_info_dense_counts_witness:
  "get_nlp_info example_solver = (True, 2, 2, 4, 4, C_STYLE) \<and>
   sint (4 :: Index) = int 2 * int 2"
  using get_nlp_info_dense_counts [of example_solver]
  by (simp add: example_defs)

text \<open>
  C5. For every problem that carries no starting point, when the engine passes the sizes of
  the problem and does not ask for constraint multipliers: if the starting-point query
  requests \<open>x\<close>, it stores the error \<^verbatim>\<open>"Ipopt method needs a starting point."\<close> as the
  solver's result and returns the failure signal; if \<open>x\<close> is not requested, it returns the
  success signal and leaves the solver as it is.
\<close>

theorem missing_starting_point:
  fixes solver :: "'a::one IpoptSolver"
  assumes none: "startingPoint (problem solver) = None"
    and n: "size_agrees (fn_n (pb_function (problem solver))) n"
    and m: "size_agrees (length (constraints (problem solver))) m"
  shows "\<exists>z_L' z_U'.
     get_starting_point solver n init_x x init_z z_L z_U m False lambda =
       (if init_x
        then Inr (False,
               solver\<lparr>result_slot := SolverError ''Ipopt method needs a starting point.''\<rparr>,
               x, z_L', z_U')
        else Inr (True, solver, x, z_L', z_U'))"
proof (cases init_z)
  case True
  obtain zl zu where z: "for_loop n (\<lambda>i (zl, zu). (zl[i := 1], zu[i := 1])) (z_L, z_U) = (zl, zu)"
    by (cases "for_loop n (\<lambda>i (zl, zu). (zl[i := (1::'a)], zu[i := (1::'a)])) (z_L, z_U)") auto
  show ?thesis
    using none n m True z by (simp add: get_starting_point_def)
next
  case False
  show ?thesis
    using none n m False by (simp add: get_starting_point_def)
qed

theorem missing_starting_point_witness:
  "get_starting_point example_solver_no_start 2 True [0, 0] False [] [] 2 False [] =
     Inr (False,
       example_solver_no_start\<lparr>result_slot :=
         SolverError ''Ipopt method needs a starting point.''\<rparr>, [0, 0], [], []) \<and>
   get_starting_point example_solver_no_start 2 False [0, 0] False [] [] 2 False [] =
     Inr (True, example_solver_no_start, [0, 0], [], [])"
proof -
  have h: "startingPoint (problem example_solver_no_start) = None"
    "size_agrees (fn_n (pb_function (problem example_solver_no_start))) 2"
    "size_agrees (length (constraints (problem example_solver_no_start))) 2"
    by (simp_all add: example_solver_no_start_def example_defs size_agrees_def)
  show ?thesis
    using missing_starting_point [OF h, of True "[0, 0]" False "[]" "[]" "[]"]
      missing_starting_point [OF h, of False "[0, 0]" False "[]" "[]" "[]"]
    by (simp add: get_starting_point_def h)
qed

text \<open>
  C6. On \<^verbatim>\<open>STOP_AT_ACCEPTABLE_POINT\<close> with two constraints and the multipliers \<open>[3, 4]\<close> the
  stored result carries the warning and the primal point, and an empty multiplier vector;
  on \<^verbatim>\<open>SUCCESS\<close> the same call stores the multipliers \<open>[3, 4]\<close>.
\<close>

theorem acceptable_point_publishes_no_multipliers:
  "finalize_solution example_solver STOP_AT_ACCEPTABLE_POINT 2 [1 / 2, 1 / 2] [0, 0] [0, 0] 2
     [1, 1 / 4] [3, 4] (1 / 2) =
     Inr (example_solver\<lparr>result_slot := IsResultWithWarnings
       \<lparr>res_x = [1 / 2, 1 / 2], res_value = [1 / 2], res_lambda = [],
        warnings = [''Acceptable point.'']\<rparr>\<rparr>) \<and>
   finalize_solution example_solver SUCCESS 2 [1 / 2, 1 / 2] [0, 0] [0, 0] 2
     [1, 1 / 4] [3, 4] (1 / 2) =
     Inr (example_solver\<lparr>result_slot := IsResult
       \<lparr>res_x = [1 / 2, 1 / 2], res_value = [1 / 2], res_lambda = [3, 4]\<rparr>\<rparr>)"
  by (simp add: finalize_solution_def finalize_success_def example_defs size_agrees_def
      Result_new_def ResultWithWarnings_new_def array_to_vector_def vector_t_def resize_def
      upt_rec)

text \<open>
  C7. The constraint \<open>x\<^sub>0 + x\<^sub>1\<close> of the example problem is declared as a linear function,
  and the constraint query tags its index as non-linear; under the objective \<open>x\<^sub>0 + x\<^sub>1\<close>,
  declared as a linear function too, the variable query tags every variable as
  non-linear. The overload of \<^verbatim>\<open>cfsqp_tag\<close> that sets the linear tag is never selected.
\<close>

theorem declared_linear_function_tagged_non_linear:
  "fn_class (constraints (problem example_solver) ! 0) = LinearFunction \<and>
   get_function_linearity example_solver 2 [LINEAR, LINEAR] =
     Inr (True, [NON_LINEAR, NON_LINEAR]) \<and>
   fn_class (pb_function (problem example_solver_linear_objective)) = LinearFunction \<and>
   get_variables_linearity example_solver_linear_objective 2 [LINEAR, LINEAR] =
     Inr (True, [NON_LINEAR, NON_LINEAR])"
  by (simp add: get_function_linearity_def get_variables_linearity_def
      example_solver_linear_objective_def example_defs size_agrees_def for_loop_def upt_rec
      problem_static_class_def)

text \<open>
  C8. For every point \<open>x\<close> of \<open>n\<close> cells and every index \<open>i\<close> in \<open>[0, m)\<close>, the constraint
  query returns at position \<open>i\<close> the first output component of the \<open>i\<close>-th constraint of
  the problem evaluated at \<open>x\<close>.
\<close>

theorem eval_g_declared_order:
  fixes solver :: "'a::zero IpoptSolver"
  assumes n: "size_agrees (fn_n (pb_function (problem solver))) n"
    and m: "size_agrees (length (constraints (problem solver))) m"
    and x: "length x = nat (sint n)"
    and g: "length g = nat (sint m)"
  shows "\<exists>g'. eval_g solver n x new_x m g = Inr (True, g') \<and>
           length g' = nat (sint m) \<and>
           (\<forall>i. i < nat (sint m) \<longrightarrow>
              g' ! i = fn_apply (constraints (problem solver) ! i) x ! 0)"
proof -
  let ?cs = "constraints (problem solver)"
  have M: "nat (sint m) = length ?cs"
    using m by (rule size_agrees_nat)
  have x_v: "array_to_vector (vector_t (nat (sint n))) x = x"
    using x by (rule array_to_vector_same_length)
  have bound: "0 + length ?cs \<le> 2 ^ 31"
    using nat_sint_Index_less [of m] by (simp add: M)
  have "eval_g_loop ?cs x 0 (vector_t (length ?cs)) = map (\<lambda>c. fn_apply c x ! 0) ?cs"
    using eval_g_loop_fills [OF _ bound, of "vector_t (length ?cs)" x]
    by (simp add: vector_t_def)
  then have "eval_g solver n x new_x m g = Inr (True, map (\<lambda>c. fn_apply c x ! 0) ?cs)"
    using n m g by (simp add: eval_g_def x_v M vector_to_array_def)
  then show ?thesis
    by (simp add: M)
qed

theorem eval_g_declared_order_witness:
  "eval_g example_solver 2 [3, 4] True 2 [0, 0] = Inr (True, [7, 12])"
proof -
  have "\<exists>g'. eval_g example_solver 2 [3, 4] True 2 [0, 0] = Inr (True, g') \<and>
           length g' = nat (sint (2 :: Index)) \<and>
           (\<forall>i. i < nat (sint (2 :: Index)) \<longrightarrow>
              g' ! i = fn_apply (constraints (problem example_solver) ! i) [3, 4] ! 0)"
    by (rule eval_g_declared_order) (simp_all add: example_defs size_agrees_def)
  then obtain g' where g': "eval_g example_solver 2 [3, 4] True 2 [0, 0] = Inr (True, g')"
    "length g' = 2" "g' ! 0 = 7" "g' ! 1 = 12"
    by (auto simp: example_defs)
  have "g' = [7, 12]"
    using g'(2-4) by (auto simp: list_eq_iff_nth_eq less_Suc_eq numeral_2_eq_2)
  then show ?thesis using g'(1) by simp
qed

text \<open>
  C9, as amended. For every return status of the engine's initialisation other than
  \<^verbatim>\<open>User_Requested_Stop\<close> and \<^verbatim>\<open>NonIpopt_Exception_Thrown\<close>, \<^verbatim>\<open>solve\<close> either calls the
  optimisation (for \<^verbatim>\<open>Solve_Succeeded\<close>, \<^verbatim>\<open>Solved_To_Acceptable_Level\<close> and
  \<^verbatim>\<open>Feasible_Point_Found\<close>) or, for each of the thirteen other statuses, stores the error
  with the message of that status as the result and returns without calling the
  optimisation. On the two excepted statuses it fails its assertion: it neither calls the
  optimisation nor stores a result.
\<close>

theorem solve_initialize_status:
  "(Initialize app \<in> {User_Requested_Stop, NonIpopt_Exception_Thrown} \<longrightarrow>
      solve app solver = Inl AssertionFailed) \<and>
   (Initialize app \<in> {Solve_Succeeded, Solved_To_Acceptable_Level, Feasible_Point_Found} \<longrightarrow>
      solve app solver = Inr (True, OptimizeTNLP app solver)) \<and>
   (Initialize app = Infeasible_Problem_Detected \<longrightarrow>
      solve app solver =
        Inr (False, solver\<lparr>result_slot := SolverError ''Ipopt: infeasible problem detected.''\<rparr>)) \<and>
   (Initialize app = Search_Direction_Becomes_Too_Small \<longrightarrow>
      solve app solver =
        Inr (False, solver\<lparr>result_slot := SolverError ''Ipopt: search direction too small.''\<rparr>)) \<and>
   (Initialize app = Diverging_Iterates \<longrightarrow>
      solve app solver =
        Inr (False, solver\<lparr>result_slot := SolverError ''Ipopt: diverging iterates.''\<rparr>)) \<and>
   (Initialize app = Maximum_Iterations_Exceeded \<longrightarrow>
      solve app solver =
        Inr (False, solver\<lparr>result_slot := SolverError ''Ipopt: maximum iterations exceeded.''\<rparr>)) \<and>
   (Initialize app = Restoration_Failed \<longrightarrow>
      solve app solver =
        Inr (False, solver\<lparr>result_slot := SolverError ''Ipopt: restoration failed.''\<rparr>)) \<and>
   (Initialize app = Error_In_Step_Computation \<longrightarrow>
      solve app solver =
        Inr (False, solver\<lparr>result_slot := SolverError ''Ipopt: error in step computation.''\<rparr>)) \<and>
   (Initialize app = Not_Enough_Degrees_Of_Freedom \<longrightarrow>
      solve app solver =
        Inr (False, solver\<lparr>result_slot := SolverError ''Ipopt: not enough degrees of freedom.''\<rparr>)) \<and>
   (Initialize app = Invalid_Problem_Definition \<longrightarrow>
      solve app solver =
        Inr (False, solver\<lparr>result_slot := SolverError ''Ipopt: invalid problem definition.''\<rparr>)) \<and>
   (Initialize app = Invalid_Option \<longrightarrow>
      solve app solver =
        Inr (False, solver\<lparr>result_slot := SolverError ''Ipopt: invalid option.''\<rparr>)) \<and>
   (Initialize app = Invalid_Number_Detected \<longrightarrow>
      solve app solver =
        Inr (False, solver\<lparr>result_slot := SolverError ''Ipopt: invalid number detected.''\<rparr>)) \<and>
   (Initialize app = Unrecoverable_Exception \<longrightarrow>
      solve app solver =
        Inr (False, solver\<lparr>result_slot := SolverError ''Ipopt: unrecoverable exception.''\<rparr>)) \<and>
   (Initialize app = Insufficient_Memory \<longrightarrow>
      solve app solver =
        Inr (False, solver\<lparr>result_slot := SolverError ''Ipopt: insufficient memory.''\<rparr>)) \<and>
   (Initialize app = Internal_Error \<longrightarrow>
      solve app solver =
        Inr (False, solver\<lparr>result_slot := SolverError ''Ipopt: internal error.''\<rparr>))"
  by (cases "Initialize app") (simp_all add: solve_def)

theorem solve_initialize_status_witness:
  "solve example_app example_solver = Inr (True, example_solver) \<and>
   solve (example_app\<lparr>Initialize := Insufficient_Memory\<rparr>) example_solver =
     Inr (False, example_solver\<lparr>result_slot := SolverError ''Ipopt: insufficient memory.''\<rparr>)"
  using solve_initialize_status [of example_app example_solver]
    solve_initialize_status [of "example_app\<lparr>Initialize := Insufficient_Memory\<rparr>" example_solver]
  by (simp add: example_app_def)

text \<open>
  C9 as stated fails on the status \<^verbatim>\<open>NonIpopt_Exception_Thrown\<close>: no error is stored.
\<close>

theorem solve_unreachable_status_counterexample:
  "solve (example_app\<lparr>Initialize := NonIpopt_Exception_Thrown\<rparr>) example_solver =
     Inl AssertionFailed"
  by (simp add: solve_def)

text \<open>
  C10. For every input, each of the five value callbacks either is aborted by one of its
  assertions or returns the success signal, and it returns whenever the assertions hold;
  the intermediate callback returns the success signal. No callback ever returns the
  failure signal.
\<close>

theorem callbacks_never_signal_failure:
  fixes solver :: "'a::{zero,plus,times} IpoptSolver" and n m :: Index
  defines "agree_n \<equiv> size_agrees (fn_n (pb_function (problem solver))) n"
    and "agree_m \<equiv> size_agrees (length (constraints (problem solver))) m"
  shows "returned (eval_f solver n x new_x) = (if agree_n then Some True else None) \<and>
     returned (eval_grad_f solver n x new_x grad_f) = (if agree_n then Some True else None) \<and>
     returned (eval_g solver n x new_x m g) = (if agree_n \<and> agree_m then Some True else None) \<and>
     returned (eval_jac_g solver n x new_x m nele_jac iRow jCol values) =
       (if agree_n \<and> agree_m then Some True else None) \<and>
     returned (eval_h solver n x new_x obj_factor m lambda new_lambda nele_hess iRow jCol values) =
       (if agree_n \<and> agree_m \<and>
           (values = None \<longrightarrow> of_nat (nat (sint n) * nat (sint n)) = nele_hess)
        then Some True else None) \<and>
     intermediate_callback mode iter obj_value inf_pr inf_du mu d_norm regularization_size
       alpha_du alpha_pr ls_trials = True"
proof -
  have f: "returned (eval_f solver n x new_x) = (if agree_n then Some True else None)"
    by (simp add: eval_f_def returned_def agree_n_def Let_def)
  have gf: "returned (eval_grad_f solver n x new_x grad_f) = (if agree_n then Some True else None)"
    by (simp add: eval_grad_f_def returned_def agree_n_def Let_def)
  have g: "returned (eval_g solver n x new_x m g) =
      (if agree_n \<and> agree_m then Some True else None)"
    by (simp add: eval_g_def returned_def agree_n_def agree_m_def Let_def)
  have j: "returned (eval_jac_g solver n x new_x m nele_jac iRow jCol values) =
       (if agree_n \<and> agree_m then Some True else None)"
    unfolding agree_n_def agree_m_def by (rule returned_eval_jac_g)
  have h: "returned (eval_h solver n x new_x obj_factor m lambda new_lambda nele_hess iRow jCol values) =
       (if agree_n \<and> agree_m \<and>
           (values = None \<longrightarrow> of_nat (nat (sint n) * nat (sint n)) = nele_hess)
        then Some True else None)"
    unfolding agree_n_def agree_m_def by (rule returned_eval_h)
  have i: "intermediate_callback mode iter obj_value inf_pr inf_du mu d_norm regularization_size
       alpha_du alpha_pr ls_trials = True"
    by (simp add: intermediate_callback_def)
  from f gf g j h i show ?thesis by blast
qed

theorem callbacks_never_signal_failure_witness:
  "returned (eval_f example_solver 2 [3, 4] True) = Some True \<and>
   returned (eval_grad_f example_solver 2 [3, 4] True [0, 0]) = Some True \<and>
   returned (eval_g example_solver 2 [3, 4] True 2 [0, 0]) = Some True \<and>
   returned (eval_jac_g example_solver 2 [3, 4] True 2 4 [] [] (Some [0, 0, 0, 0])) = Some True \<and>
   returned (eval_h example_solver 2 [3, 4] True 1 2 [5, 7] True 4 [0, 0, 0, 0] [0, 0, 0, 0] None) =
     Some True \<and>
   returned (eval_f example_solver 3 [3, 4] True) = None \<and>
   intermediate_callback RegularMode 0 (0::real) 0 0 0 0 0 0 0 0 = True"
proof -
  have n: "size_agrees (fn_n (pb_function (problem example_solver))) 2"
    and m: "size_agrees (length (constraints (problem example_solver))) 2"
    and n3: "\<not> size_agrees (fn_n (pb_function (problem example_solver))) 3"
    by (simp_all add: example_defs size_agrees_def)
  show ?thesis
    using callbacks_never_signal_failure [of example_solver 2 "[3, 4]" True "[0, 0]" 2 "[0, 0]" 4
        "[]" "[]" "Some [0, 0, 0, 0]" 1 "[5, 7]" True 4 RegularMode 0 "0::real" 0 0 0 0 0 0 0 0]
      callbacks_never_signal_failure [of example_solver 2 "[3, 4]" True "[0, 0]" 2 "[0, 0]" 4
        "[0, 0, 0, 0]" "[0, 0, 0, 0]" None 1 "[5, 7]" True 4 RegularMode 0 "0::real" 0 0 0 0 0 0 0 0]
      callbacks_never_signal_failure [of example_solver 3 "[3, 4]" True "[0, 0]" 2 "[0, 0]" 4
        "[]" "[]" "Some [0, 0, 0, 0]" 1 "[5, 7]" True 4 RegularMode 0 "0::real" 0 0 0 0 0 0 0 0]
    by (simp add: n m n3)
qed

end
